theory Spec2Isabelle
  imports Complex_Main "HOL-Library.AList" "HOL-Library.Sublist" "HOL-Library.Char_ord" "HOL-Library.List_Lexorder"
begin

section \<open>ECMAScript values used by the CSV pipeline\<close>

subsection \<open>Numbers\<close>

text \<open>
  A TypeScript \<open>number\<close> is a binary64 value: \<open>NaN\<close>, an infinity or a finite value.
  A finite value is kept as the rational number it denotes, and every arithmetic result
  is rounded to the nearest binary64 value (\<open>rnd\<close> below). The two zeros are one value:
  the code never divides by a zero and compares zeros only with \<open>>\<close>, \<open>===\<close> and
  truthiness, which do not tell them apart.
\<close>

datatype jsnum = NaN | Fin rat | PInf | NInf

text \<open>The number of binary digits of a positive integer.\<close>

function bitLength :: "int \<Rightarrow> int" where
  "bitLength n = (if n \<le> 0 then 0 else 1 + bitLength (n div 2))"
  by pat_completeness auto
termination
  by (relation "measure nat") auto

declare bitLength.simps [simp del]

definition pow2 :: "int \<Rightarrow> rat" where
  "pow2 e = (if 0 \<le> e then 2 ^ nat e else 1 / 2 ^ nat (- e))"

text \<open>The fraction \<open>n / d\<close> divided by \<open>2 ^ e\<close>, again as a fraction of integers.\<close>

definition scaled :: "int \<Rightarrow> int \<Rightarrow> int \<Rightarrow> int \<times> int" where
  "scaled n d e = (if 0 \<le> e then (n, d * 2 ^ nat e) else (n * 2 ^ nat (- e), d))"

text \<open>The exponent \<open>e\<close> with \<open>2 ^ e \<le> n / d < 2 ^ (e + 1)\<close>, for positive \<open>n\<close> and \<open>d\<close>: the
  quotient of a \<open>bn\<close>-bit numerator and a \<open>bd\<close>-bit denominator lies between
  \<open>2 ^ (bn - bd - 1)\<close> and \<open>2 ^ (bn - bd + 1)\<close>.\<close>

definition floorLog2 :: "int \<Rightarrow> int \<Rightarrow> int" where
  "floorLog2 n d =
     (let e0 = bitLength n - bitLength d
      in case scaled n d e0 of (x, y) \<Rightarrow> if y \<le> x then e0 else e0 - 1)"

text \<open>The integer nearest to \<open>x / y\<close>, a tie going to the even one.\<close>

definition roundHalfEven :: "int \<Rightarrow> int \<Rightarrow> int" where
  "roundHalfEven x y =
     (let f = x div y; r = 2 * (x mod y)
      in if r < y then f else if y < r then f + 1 else if even f then f else f + 1)"

text \<open>
  The binary64 value of a real result (round to nearest, ties to even): a significand
  \<open>m\<close> of 53 bits over the exponent of the value, or over the least exponent \<open>-1074\<close> for
  a subnormal value; a rounded magnitude \<open>m * 2 ^ e\<close> of \<open>2 ^ 1024\<close> or more is an infinity.
\<close>

definition rnd :: "rat \<Rightarrow> jsnum" where
  "rnd q =
     (if q = 0 then Fin 0
      else
        case quotient_of \<bar>q\<bar> of
          (n, d) \<Rightarrow>
            let e = max (floorLog2 n d - 52) (- 1074);
                m = (case scaled n d e of (x, y) \<Rightarrow> roundHalfEven x y)
            in if 1025 \<le> bitLength m + e then (if 0 < q then PInf else NInf)
               else Fin ((if 0 < q then 1 else - 1) * of_int m * pow2 e))"

text \<open>Truthiness of a number: \<open>NaN\<close> and zero are falsy.\<close>

fun truthy :: "jsnum \<Rightarrow> bool" where
  "truthy NaN = False"
| "truthy (Fin q) = (q \<noteq> 0)"
| "truthy PInf = True"
| "truthy NInf = True"

text \<open>\<open>x || 0\<close> for a field of type \<open>number | null\<close>.\<close>

fun orZero :: "jsnum option \<Rightarrow> jsnum" where
  "orZero None = Fin 0"
| "orZero (Some v) = (if truthy v then v else Fin 0)"

fun js_neg :: "jsnum \<Rightarrow> jsnum" where
  "js_neg NaN = NaN"
| "js_neg (Fin q) = Fin (- q)"
| "js_neg PInf = NInf"
| "js_neg NInf = PInf"

fun js_add :: "jsnum \<Rightarrow> jsnum \<Rightarrow> jsnum" where
  "js_add NaN y = NaN"
| "js_add x NaN = NaN"
| "js_add (Fin a) (Fin b) = rnd (a + b)"
| "js_add (Fin a) PInf = PInf"
| "js_add (Fin a) NInf = NInf"
| "js_add PInf (Fin b) = PInf"
| "js_add NInf (Fin b) = NInf"
| "js_add PInf PInf = PInf"
| "js_add NInf NInf = NInf"
| "js_add PInf NInf = NaN"
| "js_add NInf PInf = NaN"

text \<open>An infinity times a finite value: zero gives \<open>NaN\<close>, otherwise the sign decides.\<close>

definition infTimes :: "bool \<Rightarrow> rat \<Rightarrow> jsnum" where
  "infTimes pos q = (if q = 0 then NaN else if (0 < q) = pos then PInf else NInf)"

fun js_mul :: "jsnum \<Rightarrow> jsnum \<Rightarrow> jsnum" where
  "js_mul NaN y = NaN"
| "js_mul x NaN = NaN"
| "js_mul (Fin a) (Fin b) = rnd (a * b)"
| "js_mul (Fin a) PInf = infTimes True a"
| "js_mul (Fin a) NInf = infTimes False a"
| "js_mul PInf (Fin b) = infTimes True b"
| "js_mul NInf (Fin b) = infTimes False b"
| "js_mul PInf PInf = PInf"
| "js_mul NInf NInf = PInf"
| "js_mul PInf NInf = NInf"
| "js_mul NInf PInf = NInf"

text \<open>The operator \<open>x / y\<close> (the PR code divides by the constant 30 only).\<close>

fun js_div :: "jsnum \<Rightarrow> jsnum \<Rightarrow> jsnum" where
  "js_div NaN y = NaN"
| "js_div x NaN = NaN"
| "js_div (Fin a) (Fin b) =
     (if b \<noteq> 0 then rnd (a / b) else if a = 0 then NaN else if 0 < a then PInf else NInf)"
| "js_div (Fin a) PInf = Fin 0"
| "js_div (Fin a) NInf = Fin 0"
| "js_div PInf (Fin b) = (if 0 \<le> b then PInf else NInf)"
| "js_div NInf (Fin b) = (if 0 \<le> b then NInf else PInf)"
| "js_div PInf PInf = NaN"
| "js_div NInf NInf = NaN"
| "js_div PInf NInf = NaN"
| "js_div NInf PInf = NaN"

text \<open>The relational operator \<open>x > y\<close>: false whenever an operand is \<open>NaN\<close>.\<close>

fun js_gt :: "jsnum \<Rightarrow> jsnum \<Rightarrow> bool" where
  "js_gt NaN y = False"
| "js_gt x NaN = False"
| "js_gt (Fin a) (Fin b) = (b < a)"
| "js_gt (Fin a) PInf = False"
| "js_gt (Fin a) NInf = True"
| "js_gt PInf (Fin b) = True"
| "js_gt NInf (Fin b) = False"
| "js_gt PInf PInf = False"
| "js_gt NInf NInf = False"
| "js_gt PInf NInf = True"
| "js_gt NInf PInf = False"

text \<open>Strict equality \<open>x === 0\<close> on numbers (\<open>NaN\<close> equals nothing).\<close>

fun js_isZero :: "jsnum \<Rightarrow> bool" where
  "js_isZero (Fin q) = (q = 0)"
| "js_isZero x = False"

text \<open>\<open>Math.round\<close>: the integer nearest to the argument, ties towards plus infinity
  (an integer below \<open>2 ^ 53\<close> or the argument itself, so no rounding error arises).\<close>

fun js_round :: "jsnum \<Rightarrow> jsnum" where
  "js_round (Fin q) = Fin (of_int \<lfloor>q + 1 / 2\<rfloor>)"
| "js_round x = x"

subsection \<open>Strings\<close>

text \<open>
  Strings are byte strings (UTF-8); the characters the code looks for are all ASCII.
  \<open>toLowerCase\<close> is modelled on the ASCII letters.
\<close>

definition toLowerChar :: "char \<Rightarrow> char" where
  "toLowerChar c =
     (if CHR ''A'' \<le> c \<and> c \<le> CHR ''Z'' then char_of (of_char c + (32::nat)) else c)"

definition toLowerCase :: "string \<Rightarrow> string" where
  "toLowerCase s = map toLowerChar s"

text \<open>\<open>s.includes(p)\<close>: \<open>p\<close> occurs in \<open>s\<close> as a contiguous substring.\<close>

fun includesStr :: "string \<Rightarrow> string \<Rightarrow> bool" where
  "includesStr [] p = (p = [])"
| "includesStr (c # cs) p = (prefix p (c # cs) \<or> includesStr cs p)"

definition digitChar :: "nat \<Rightarrow> char" where
  "digitChar d = char_of (48 + d)"

text \<open>Decimal digits of a natural number, zero-padded to a width.\<close>

fun padNat :: "nat \<Rightarrow> nat \<Rightarrow> string" where
  "padNat 0 n = []"
| "padNat (Suc w) n = padNat w (n div 10) @ [digitChar (n mod 10)]"

section \<open>The workout tree\<close>

text \<open>
  \<open>ParsedSet\<close>, \<open>ParsedExercise\<close> and \<open>ParsedWorkout\<close> of csvParser.ts; the calculator's
  \<open>Set\<close>, \<open>Exercise\<close> and \<open>Workout\<close> interfaces have the same fields. A field of type
  \<open>T | null\<close> is an option. \<open>start_time\<close> is in whole epoch seconds.
\<close>

record ParsedSet =
  set_id :: string
  index :: jsnum
  set_type :: "string option"
  weight_kg :: "jsnum option"
  reps :: "jsnum option"
  distance_km :: "jsnum option"
  duration_seconds :: "jsnum option"
  rpe :: "jsnum option"

record ParsedExercise =
  ex_id :: string
  ex_title :: string
  superset_id :: "string option"
  ex_notes :: "string option"
  sets :: "ParsedSet list"

record ParsedWorkout =
  w_id :: string
  title :: string
  start_time :: int
  end_time :: "int option"
  description :: "string option"
  exercises :: "ParsedExercise list"
  estimated_volume_kg :: "jsnum option"

text \<open>
  Every \<open>throw\<close> of the code, named after the error taxonomy of the specification:
  \<open>NotCsvFile\<close> "File must be a CSV file", \<open>FileTooLarge\<close> "File size must be less than
  10MB", \<open>ReadFailed\<close> "Failed to read file", \<open>UnsupportedUnitError\<close> "CSV must use
  'weight_kg' not 'weight_lbs'", \<open>MissingColumnError\<close> "CSV must contain 'weight_kg'
  column.", \<open>EmptyInput\<close> "CSV file is empty", \<open>FormatError\<close> "CSV header is missing",
  \<open>InvalidFile\<close> and \<open>NoWorkouts\<close> for the two messages of the upload handler,
  \<open>RangeError\<close> for \<open>toISOString\<close> of an invalid date and \<open>TypeError\<close> for a method
  call on \<open>undefined\<close>.
\<close>

datatype error =
  NotCsvFile | FileTooLarge | ReadFailed | UnsupportedUnitError | MissingColumnError
  | EmptyInput | FormatError | InvalidFile | NoWorkouts | RangeError | TypeError

section \<open>csvCalculator.ts\<close>

subsection \<open>calculateTotalVolume\<close>

definition setVolume :: "ParsedSet \<Rightarrow> jsnum" where
  "setVolume s = js_mul (orZero (weight_kg s)) (orZero (reps s))"

text \<open>\<open>xs.reduce((acc, x) => acc + f(x), 0)\<close>.\<close>

definition reduceSum :: "('a \<Rightarrow> jsnum) \<Rightarrow> 'a list \<Rightarrow> jsnum" where
  "reduceSum f xs = foldl (\<lambda>acc x. js_add acc (f x)) (Fin 0) xs"

definition exerciseVolume :: "ParsedExercise \<Rightarrow> jsnum" where
  "exerciseVolume ex = reduceSum setVolume (sets ex)"

definition workoutVolume :: "ParsedWorkout \<Rightarrow> jsnum" where
  "workoutVolume w = reduceSum exerciseVolume (exercises w)"

definition calculateTotalVolume :: "ParsedWorkout list \<Rightarrow> jsnum" where
  "calculateTotalVolume workouts = js_round (reduceSum workoutVolume workouts)"

subsection \<open>Personal records\<close>

record PRs =
  max1RM :: jsnum
  maxWeight :: jsnum
  maxReps :: jsnum

definition zeroPRs :: PRs where
  "zeroPRs = \<lparr>max1RM = Fin 0, maxWeight = Fin 0, maxReps = Fin 0\<rparr>"

text \<open>Epley: \<open>weight * (1 + reps / 30)\<close>.\<close>

definition epley :: "jsnum \<Rightarrow> jsnum \<Rightarrow> jsnum" where
  "epley weight r = js_mul weight (js_add (Fin 1) (js_div r (Fin 30)))"

text \<open>
  The body of the loop over the sets of an exercise: the running maxima before the set,
  the maxima after it and the set's \<open>prCount\<close>.
\<close>

definition prSet :: "PRs \<Rightarrow> ParsedSet \<Rightarrow> PRs \<times> nat" where
  "prSet cur s =
     (let weight = orZero (weight_kg s); r = orZero (reps s) in
      if js_gt weight (Fin 0) \<and> js_gt r (Fin 0) then
        let estimated1RM = epley weight r;
            (c1, n1) = (if js_gt estimated1RM (max1RM cur)
                        then (cur\<lparr>max1RM := estimated1RM\<rparr>, 1) else (cur, 0));
            (c2, n2) = (if js_gt weight (maxWeight c1)
                        then (c1\<lparr>maxWeight := weight\<rparr>, n1 + 1) else (c1, n1))
        in if js_gt r (maxReps c2) then (c2\<lparr>maxReps := r\<rparr>, n2 + 1) else (c2, n2)
      else if js_gt r (Fin 0) \<and> js_isZero weight then
        if js_gt r (maxReps cur) then (cur\<lparr>maxReps := r\<rparr>, 1) else (cur, 0)
      else (cur, 0))"

text \<open>\<open>for (const set of exercise.sets)\<close>, adding each \<open>prCount\<close> to \<open>prsInWorkout\<close>.\<close>

fun prSets :: "PRs \<Rightarrow> ParsedSet list \<Rightarrow> nat \<Rightarrow> PRs \<times> nat" where
  "prSets cur [] n = (cur, n)"
| "prSets cur (s # ss) n = (case prSet cur s of (cur', k) \<Rightarrow> prSets cur' ss (n + k))"

text \<open>
  \<open>for (const exercise of workout.exercises)\<close>: the maxima are looked up under the
  lower-cased title (created as zeros when missing) and the object found is updated in
  place by the set loop.
\<close>

fun prExercises ::
  "(string \<rightharpoonup> PRs) \<Rightarrow> ParsedExercise list \<Rightarrow> nat \<Rightarrow> (string \<rightharpoonup> PRs) \<times> nat" where
  "prExercises m [] n = (m, n)"
| "prExercises m (e # es) n =
     (let exerciseKey = toLowerCase (ex_title e);
          currentPRs = (case m exerciseKey of None \<Rightarrow> zeroPRs | Some p \<Rightarrow> p)
      in case prSets currentPRs (sets e) n of
           (cur', n') \<Rightarrow> prExercises (m(exerciseKey \<mapsto> cur')) es n')"

text \<open>\<open>map.set(k, (map.get(k) || 0) + n)\<close> on a \<open>Map\<close> kept in insertion order.\<close>

fun addCount :: "(string \<times> nat) list \<Rightarrow> string \<Rightarrow> nat \<Rightarrow> (string \<times> nat) list" where
  "addCount [] k n = [(k, n)]"
| "addCount ((k', c) # kvs) k n =
     (if k' = k then (k', c + n) # kvs else (k', c) # addCount kvs k n)"

subsection \<open>Calendar dates\<close>

text \<open>
  \<open>new Date(ms).toISOString()\<close>: the proleptic Gregorian date of a time value in UTC.
  A time value beyond 8.64e15 ms is an invalid date, for which \<open>toISOString\<close> throws.
\<close>

definition validTime :: "int \<Rightarrow> bool" where
  "validTime ms = (\<bar>ms\<bar> \<le> 8640000000000000)"

text \<open>Year, month and day of a day number (days since 1970-01-01).\<close>

definition civil :: "int \<Rightarrow> int \<times> int \<times> int" where
  "civil days =
     (let z = days + 719468;
          era = z div 146097;
          doe = z mod 146097;
          yoe = (doe - doe div 1460 + doe div 36524 - doe div 146096) div 365;
          doy = doe - (365 * yoe + yoe div 4 - yoe div 100);
          mp = (5 * doy + 2) div 153;
          d = doy - (153 * mp + 2) div 5 + 1;
          m = (if mp < 10 then mp + 3 else mp - 9);
          y = yoe + era * 400 + (if m \<le> 2 then 1 else 0)
      in (y, m, d))"

definition isoYear :: "int \<Rightarrow> string" where
  "isoYear y =
     (if 0 \<le> y \<and> y \<le> 9999 then padNat 4 (nat y)
      else (if y < 0 then ''-'' else ''+'') @ padNat 6 (nat \<bar>y\<bar>))"

text \<open>\<open>toISOString().split("T")[0]\<close>, equally \<open>toISOString().slice(0, 10)\<close> for a
  four-digit year.\<close>

definition isoDate :: "int \<Rightarrow> error + string" where
  "isoDate ms =
     (if validTime ms then
        (case civil (ms div 86400000) of
           (y, m, d) \<Rightarrow> Inr (isoYear y @ ''-'' @ padNat 2 (nat m) @ ''-'' @ padNat 2 (nat d)))
      else Inl RangeError)"

subsection \<open>calculatePRsOverTime\<close>

text \<open>The loop over the chronologically sorted workouts.\<close>

fun prWorkouts ::
  "(string \<rightharpoonup> PRs) \<Rightarrow> (string \<times> nat) list \<Rightarrow> ParsedWorkout list
     \<Rightarrow> error + (string \<times> nat) list" where
  "prWorkouts m prsByDate [] = Inr prsByDate"
| "prWorkouts m prsByDate (w # ws) =
     (case isoDate (start_time w * 1000) of
        Inl e \<Rightarrow> Inl e
      | Inr date \<Rightarrow>
          (case prExercises m (exercises w) 0 of
             (m', prsInWorkout) \<Rightarrow>
               prWorkouts m'
                 (if date \<noteq> [] \<and> 0 < prsInWorkout then addCount prsByDate date prsInWorkout
                  else prsByDate) ws))"

text \<open>
  \<open>[...workouts].sort((a, b) => a.start_time - b.start_time)\<close> is a stable ascending
  sort; the final \<open>sort\<close> orders the distinct date keys with \<open>localeCompare\<close>, which on
  ISO dates of one length is the order of the characters.
\<close>

definition calculatePRsOverTime :: "ParsedWorkout list \<Rightarrow> error + (string \<times> nat) list" where
  "calculatePRsOverTime workouts =
     (case prWorkouts Map.empty [] (sort_key start_time workouts) of
        Inl e \<Rightarrow> Inl e
      | Inr prsByDate \<Rightarrow> Inr (sort_key fst prsByDate))"

subsection \<open>calculatePRsGrouped\<close>

datatype groupBy = Week | Month

text \<open>
  The period key of a workout. \<open>startOfWeek\<close> works in the host's local time (\<open>getDay\<close>,
  \<open>setDate\<close>, \<open>setHours\<close>), so it is a parameter: the time value of the local midnight
  that opens the Monday-based week of a time value. \<open>slice(0, 10)\<close> and \<open>slice(0, 7)\<close>
  cut the ISO string inside its date part.
\<close>

definition periodKey :: "(int \<Rightarrow> int) \<Rightarrow> groupBy \<Rightarrow> int \<Rightarrow> error + string" where
  "periodKey startOfWeek g ms =
     (case g of
        Week \<Rightarrow>
          (if validTime ms then
             (case isoDate (startOfWeek ms) of Inl e \<Rightarrow> Inl e | Inr d \<Rightarrow> Inr (take 10 d))
           else Inl RangeError)
      | Month \<Rightarrow> (case isoDate ms of Inl e \<Rightarrow> Inl e | Inr d \<Rightarrow> Inr (take 7 d)))"

fun prPeriods ::
  "(int \<Rightarrow> int) \<Rightarrow> groupBy \<Rightarrow> (string \<rightharpoonup> PRs) \<Rightarrow> (string \<times> nat) list
     \<Rightarrow> ParsedWorkout list \<Rightarrow> error + (string \<times> nat) list" where
  "prPeriods startOfWeek g m prsByPeriod [] = Inr prsByPeriod"
| "prPeriods startOfWeek g m prsByPeriod (w # ws) =
     (case periodKey startOfWeek g (start_time w * 1000) of
        Inl e \<Rightarrow> Inl e
      | Inr key \<Rightarrow>
          (case prExercises m (exercises w) 0 of
             (m', prsInWorkout) \<Rightarrow>
               prPeriods startOfWeek g m'
                 (if 0 < prsInWorkout then addCount prsByPeriod key prsInWorkout
                  else prsByPeriod) ws))"

text \<open>The result object lists its period keys in the order of their first insertion.\<close>

definition calculatePRsGrouped ::
  "(int \<Rightarrow> int) \<Rightarrow> ParsedWorkout list \<Rightarrow> groupBy \<Rightarrow> error + (string \<times> nat) list" where
  "calculatePRsGrouped startOfWeek workouts g =
     prPeriods startOfWeek g Map.empty [] (sort_key start_time workouts)"

subsection \<open>calculateMuscleDistribution\<close>

text \<open>The pattern table, in the order of the object literal (the order of \<open>Object.entries\<close>).\<close>

definition exerciseToMuscle :: "(string \<times> string list) list" where
  "exerciseToMuscle =
     [(''bench press'', [''chest'']), (''incline bench'', [''chest'']),
      (''decline bench'', [''chest'']), (''chest press'', [''chest'']),
      (''chest fly'', [''chest'']), (''pec deck'', [''chest'']),
      (''push up'', [''chest'', ''triceps'']), (''dips'', [''chest'', ''triceps'']),
      (''deadlift'', [''back'', ''legs'']), (''pull up'', [''back'', ''biceps'']),
      (''chin up'', [''back'', ''biceps'']), (''lat pulldown'', [''back'']),
      (''seated row'', [''back'']), (''cable row'', [''back'']),
      (''bent over row'', [''back'']), (''barbell row'', [''back'']),
      (''t-bar row'', [''back'']),
      (''shoulder press'', [''shoulders'']), (''overhead press'', [''shoulders'']),
      (''military press'', [''shoulders'']), (''lateral raise'', [''shoulders'']),
      (''front raise'', [''shoulders'']), (''rear delt'', [''shoulders'']),
      (''shrug'', [''shoulders'']),
      (''bicep curl'', [''biceps'']), (''biceps curl'', [''biceps'']),
      (''hammer curl'', [''biceps'']), (''preacher curl'', [''biceps'']),
      (''reverse curl'', [''biceps'']),
      (''tricep extension'', [''triceps'']), (''triceps extension'', [''triceps'']),
      (''tricep pushdown'', [''triceps'']), (''triceps pushdown'', [''triceps'']),
      (''skull crusher'', [''triceps'']), (''overhead extension'', [''triceps'']),
      (''squat'', [''legs'']), (''leg press'', [''legs'']), (''leg extension'', [''legs'']),
      (''leg curl'', [''legs'']), (''lunge'', [''legs'']), (''calf raise'', [''legs'']),
      (''romanian deadlift'', [''legs'', ''back'']),
      (''plank'', [''core'']), (''crunch'', [''core'']), (''sit up'', [''core'']),
      (''ab wheel'', [''core'']), (''russian twist'', [''core'']),
      (''hanging leg raise'', [''core''])]"

definition groupNames :: "string list" where
  "groupNames = [''chest'', ''back'', ''shoulders'', ''biceps'', ''triceps'', ''legs'', ''core'']"

text \<open>The initial \<open>muscleGroups\<close> object: every group at zero.\<close>

definition muscleGroups0 :: "string \<rightharpoonup> nat" where
  "muscleGroups0 = map_of (map (\<lambda>g. (g, 0)) groupNames)"

text \<open>\<open>if (muscleGroups[m] !== undefined) muscleGroups[m] += setCount\<close>.\<close>

definition addSets :: "nat \<Rightarrow> string \<Rightarrow> (string \<rightharpoonup> nat) \<Rightarrow> (string \<rightharpoonup> nat)" where
  "addSets setCount m groups =
     (case groups m of None \<Rightarrow> groups | Some c \<Rightarrow> groups(m \<mapsto> c + setCount))"

text \<open>The loop over the table entries, left at the first pattern the name includes.\<close>

fun matchPatterns ::
  "(string \<times> string list) list \<Rightarrow> string \<Rightarrow> nat \<Rightarrow> (string \<rightharpoonup> nat)
     \<Rightarrow> (string \<rightharpoonup> nat)" where
  "matchPatterns [] name setCount groups = groups"
| "matchPatterns ((pattern, muscles) # rest) name setCount groups =
     (if includesStr name pattern then fold (addSets setCount) muscles groups
      else matchPatterns rest name setCount groups)"

definition muscleExercise :: "ParsedExercise \<Rightarrow> (string \<rightharpoonup> nat) \<Rightarrow> (string \<rightharpoonup> nat)" where
  "muscleExercise exercise groups =
     matchPatterns exerciseToMuscle (toLowerCase (ex_title exercise))
       (length (sets exercise)) groups"

definition calculateMuscleDistribution :: "ParsedWorkout list \<Rightarrow> (string \<rightharpoonup> nat)" where
  "calculateMuscleDistribution workouts =
     fold (\<lambda>workout. fold muscleExercise (exercises workout)) workouts muscleGroups0"

section \<open>csvParser.ts\<close>

subsection \<open>String helpers of the platform\<close>

text \<open>White space stripped by \<open>trim\<close> and skipped by \<open>parseFloat\<close> and \<open>parseInt\<close> (the
  ASCII part: space, tab, line feed, vertical tab, form feed, carriage return).\<close>

definition isWhite :: "char \<Rightarrow> bool" where
  "isWhite c = (c \<in> set [CHR '' '', CHR 0x09, CHR 0x0A, CHR 0x0B, CHR 0x0C, CHR 0x0D])"

definition trimStart :: "string \<Rightarrow> string" where
  "trimStart s = dropWhile isWhite s"

definition trim :: "string \<Rightarrow> string" where
  "trim s = rev (dropWhile isWhite (rev (dropWhile isWhite s)))"

text \<open>\<open>s.split("\n")\<close>: never empty; the empty string gives one empty line.\<close>

fun splitLines :: "string \<Rightarrow> string list" where
  "splitLines [] = [[]]"
| "splitLines (c # cs) =
     (if c = CHR 0x0A then [] # splitLines cs
      else (case splitLines cs of [] \<Rightarrow> [[c]] | l # ls \<Rightarrow> (c # l) # ls))"

text \<open>\<open>s.replace(pat, rep)\<close> with a string pattern: the first occurrence only.\<close>

fun replaceFirst :: "string \<Rightarrow> string \<Rightarrow> string \<Rightarrow> string" where
  "replaceFirst [] pat rep = (if pat = [] then rep else [])"
| "replaceFirst (c # cs) pat rep =
     (if prefix pat (c # cs) then rep @ drop (length pat) (c # cs)
      else c # replaceFirst cs pat rep)"

text \<open>Decimal notation of a number inside a template literal.\<close>

function showPos :: "int \<Rightarrow> string" where
  "showPos n =
     (if n < 10 then [digitChar (nat n)] else showPos (n div 10) @ [digitChar (nat (n mod 10))])"
  by pat_completeness auto
termination
  by (relation "measure nat") auto

declare showPos.simps [simp del]

definition showInt :: "int \<Rightarrow> string" where
  "showInt i = (if i < 0 then ''-'' @ showPos (- i) else showPos i)"

definition showNat :: "nat \<Rightarrow> string" where
  "showNat n = showPos (int n)"

text \<open>A value read from the row object is a string or \<open>undefined\<close> (\<open>None\<close>). Inside a
  template literal \<open>undefined\<close> prints as its name.\<close>

definition tmpl :: "string option \<Rightarrow> string" where
  "tmpl v = (case v of None \<Rightarrow> ''undefined'' | Some s \<Rightarrow> s)"

text \<open>Truthiness of such a value, and \<open>v || d\<close>.\<close>

definition strTruthy :: "string option \<Rightarrow> bool" where
  "strTruthy v = (case v of None \<Rightarrow> False | Some s \<Rightarrow> s \<noteq> [])"

definition orDefault :: "string option \<Rightarrow> string \<Rightarrow> string" where
  "orDefault v d = (case v of None \<Rightarrow> d | Some s \<Rightarrow> if s = [] then d else s)"

subsection \<open>parseFloat and parseInt\<close>

definition isDigit :: "char \<Rightarrow> bool" where
  "isDigit c = (CHR ''0'' \<le> c \<and> c \<le> CHR ''9'')"

definition digitVal :: "char \<Rightarrow> nat" where
  "digitVal c = of_char c - 48"

definition digitsValue :: "string \<Rightarrow> int" where
  "digitsValue ds = foldl (\<lambda>a c. 10 * a + int (digitVal c)) 0 ds"

definition pow10 :: "int \<Rightarrow> rat" where
  "pow10 e = (if 0 \<le> e then 10 ^ nat e else 1 / 10 ^ nat (- e))"

text \<open>The exponent part after the mantissa: \<open>e\<close> or \<open>E\<close>, an optional sign and at least
  one digit; anything else is no exponent.\<close>

definition exponentPart :: "string \<Rightarrow> int" where
  "exponentPart s =
     (case s of
        [] \<Rightarrow> 0
      | c # t \<Rightarrow>
          if c = CHR ''e'' \<or> c = CHR ''E'' then
            (case t of
               [] \<Rightarrow> 0
             | sg # u \<Rightarrow>
                 if sg = CHR ''-'' then - digitsValue (takeWhile isDigit u)
                 else if sg = CHR ''+'' then digitsValue (takeWhile isDigit u)
                 else digitsValue (takeWhile isDigit t))
          else 0)"

text \<open>The longest prefix that is an unsigned decimal literal: \<open>Infinity\<close>, or digits with
  an optional fraction and exponent, or a fraction of at least one digit. The result is
  the binary64 value nearest to the decimal value of that prefix.\<close>

definition unsignedDecimal :: "string \<Rightarrow> jsnum" where
  "unsignedDecimal s =
     (if prefix ''Infinity'' s then PInf
      else
        let ip = takeWhile isDigit s;
            r1 = dropWhile isDigit s;
            fp = (case r1 of [] \<Rightarrow> [] | c # t \<Rightarrow> if c = CHR ''.'' then takeWhile isDigit t else []);
            r2 = (case r1 of [] \<Rightarrow> [] | c # t \<Rightarrow> if c = CHR ''.'' then dropWhile isDigit t else r1)
        in if ip = [] \<and> fp = [] then NaN
           else rnd (of_int (digitsValue (ip @ fp)) / 10 ^ length fp * pow10 (exponentPart r2)))"

definition parseFloat :: "string \<Rightarrow> jsnum" where
  "parseFloat inputString =
     (case trimStart inputString of
        [] \<Rightarrow> NaN
      | c # t \<Rightarrow>
          if c = CHR ''-'' then js_neg (unsignedDecimal t)
          else if c = CHR ''+'' then unsignedDecimal t
          else unsignedDecimal (c # t))"

definition isHexDigit :: "char \<Rightarrow> bool" where
  "isHexDigit c =
     (isDigit c \<or> (CHR ''a'' \<le> c \<and> c \<le> CHR ''f'') \<or> (CHR ''A'' \<le> c \<and> c \<le> CHR ''F''))"

definition hexVal :: "char \<Rightarrow> nat" where
  "hexVal c =
     (if isDigit c then digitVal c
      else if CHR ''a'' \<le> c then of_char c - 87 else of_char c - 55)"

definition hexValue :: "string \<Rightarrow> int" where
  "hexValue ds = foldl (\<lambda>a c. 16 * a + int (hexVal c)) 0 ds"

text \<open>\<open>parseInt\<close> without a radix: decimal, or hexadecimal after \<open>0x\<close>; the longest prefix
  of digits counts and no digit at all gives \<open>NaN\<close>.\<close>

definition unsignedInt :: "string \<Rightarrow> jsnum" where
  "unsignedInt s =
     (if prefix ''0x'' s \<or> prefix ''0X'' s then
        (let ds = takeWhile isHexDigit (drop 2 s)
         in if ds = [] then NaN else rnd (of_int (hexValue ds)))
      else
        (let ds = takeWhile isDigit s
         in if ds = [] then NaN else rnd (of_int (digitsValue ds))))"

definition parseInt :: "string \<Rightarrow> jsnum" where
  "parseInt inputString =
     (case trimStart inputString of
        [] \<Rightarrow> NaN
      | c # t \<Rightarrow>
          if c = CHR ''-'' then js_neg (unsignedInt t)
          else if c = CHR ''+'' then unsignedInt t
          else unsignedInt (c # t))"

subsection \<open>parseCSVLine\<close>

text \<open>
  The character loop: a doubled quote appends one quote and skips the second, a single
  quote toggles \<open>inQuotes\<close>, a comma outside quotes closes the field (trimmed).
\<close>

fun csvLineLoop :: "string \<Rightarrow> string \<Rightarrow> bool \<Rightarrow> string list \<Rightarrow> string list" where
  "csvLineLoop [] current inQuotes result = result @ [trim current]"
| "csvLineLoop (c # cs) current inQuotes result =
     (case cs of
        [] \<Rightarrow>
          (if c = CHR 0x22 then csvLineLoop [] current (\<not> inQuotes) result
           else if c = CHR '','' \<and> \<not> inQuotes then csvLineLoop [] [] inQuotes (result @ [trim current])
           else csvLineLoop [] (current @ [c]) inQuotes result)
      | nextChar # rest \<Rightarrow>
          (if c = CHR 0x22 \<and> nextChar = CHR 0x22
           then csvLineLoop rest (current @ [CHR 0x22]) inQuotes result
           else if c = CHR 0x22 then csvLineLoop cs current (\<not> inQuotes) result
           else if c = CHR '','' \<and> \<not> inQuotes
           then csvLineLoop cs [] inQuotes (result @ [trim current])
           else csvLineLoop cs (current @ [c]) inQuotes result))"

definition parseCSVLine :: "string \<Rightarrow> string list" where
  "parseCSVLine line = csvLineLoop line [] False []"

subsection \<open>parseDate\<close>

text \<open>The month table in the order of the object literal; the third key is M-a-umlaut-r.\<close>

definition germanMonths :: "(string \<times> string) list" where
  "germanMonths =
     [(''Jan'', ''Jan''), (''Feb'', ''Feb''), ([CHR ''M'', CHR 0xC3, CHR 0xA4, CHR ''r''], ''Mar''),
      (''Mar'', ''Mar''), (''Apr'', ''Apr''), (''Mai'', ''May''), (''Jun'', ''Jun''),
      (''Jul'', ''Jul''), (''Aug'', ''Aug''), (''Sep'', ''Sep''), (''Okt'', ''Oct''),
      (''Nov'', ''Nov''), (''Dez'', ''Dec'')]"

text \<open>The loop over the table: the first abbreviation found in the input is replaced
  (its first occurrence) and the loop is left.\<close>

fun normalizeMonths :: "(string \<times> string) list \<Rightarrow> string \<Rightarrow> string" where
  "normalizeMonths [] dateString = dateString"
| "normalizeMonths ((german, english) # rest) dateString =
     (if includesStr dateString german then replaceFirst dateString german english
      else normalizeMonths rest dateString)"

text \<open>
  Two things come from the host. \<open>dateParse\<close> is \<open>new Date(string).getTime()\<close>: the time
  value in milliseconds, \<open>None\<close> for an invalid date. \<open>clock\<close> is \<open>Date.now()\<close>: its
  \<open>n\<close>-th reading in milliseconds; the number of readings taken so far is threaded
  through every function that reads the clock.

  \<open>parseDateTry\<close> is the body of the \<open>try\<close>: applied to \<open>undefined\<close>, \<open>includes\<close> throws a
  \<open>TypeError\<close>. \<open>parseDate\<close> adds the \<open>catch\<close>.
\<close>

definition parseDateTry ::
  "(string \<Rightarrow> int option) \<Rightarrow> (nat \<Rightarrow> int) \<Rightarrow> string option \<Rightarrow> nat \<Rightarrow> error + int \<times> nat" where
  "parseDateTry dateParse clock dateString t =
     (case dateString of
        None \<Rightarrow> Inl TypeError
      | Some s \<Rightarrow>
          (case dateParse (normalizeMonths germanMonths s) of
             None \<Rightarrow> Inr (clock t div 1000, Suc t)
           | Some ms \<Rightarrow> Inr (ms div 1000, t)))"

definition parseDate ::
  "(string \<Rightarrow> int option) \<Rightarrow> (nat \<Rightarrow> int) \<Rightarrow> string option \<Rightarrow> nat \<Rightarrow> int \<times> nat" where
  "parseDate dateParse clock dateString t =
     (case parseDateTry dateParse clock dateString t of
        Inl e \<Rightarrow> (clock t div 1000, Suc t)
      | Inr r \<Rightarrow> r)"

subsection \<open>cleanString\<close>

definition cleanString :: "string option \<Rightarrow> string option" where
  "cleanString val =
     (if \<not> strTruthy val then None
      else let trimmed = trim (tmpl val)
           in if trimmed = [] \<or> trimmed = [CHR 0x22] then None else Some trimmed)"

subsection \<open>parseCSV\<close>

text \<open>The row object: the header names assigned in order, a later duplicate overwriting.\<close>

definition mkRow :: "string list \<Rightarrow> string list \<Rightarrow> (string \<rightharpoonup> string)" where
  "mkRow headers vals = fold (\<lambda>(h, v) row. row(h \<mapsto> v)) (zip headers vals) Map.empty"

definition workoutKey :: "(string \<rightharpoonup> string) \<Rightarrow> string" where
  "workoutKey row = tmpl (row ''title'') @ ''_'' @ tmpl (row ''start_time'')"

text \<open>\<open>cell ? parse(cell) : null\<close>.\<close>

definition numField :: "(string \<Rightarrow> jsnum) \<Rightarrow> string option \<Rightarrow> jsnum option" where
  "numField parse cell = (if strTruthy cell then Some (parse (tmpl cell)) else None)"

text \<open>The set of a row (step 3), given the row's line index and the clock reading.\<close>

definition buildSet :: "(string \<rightharpoonup> string) \<Rightarrow> nat \<Rightarrow> int \<Rightarrow> ParsedSet" where
  "buildSet row i now =
     \<lparr>set_id = ''csv_set_'' @ tmpl (row ''set_index'') @ ''_'' @ showInt now @ ''_'' @ showNat i,
      index = orZero (Some (parseInt (tmpl (row ''set_index'')))),
      set_type = (if strTruthy (row ''set_type'') then row ''set_type'' else None),
      weight_kg = numField parseFloat (row ''weight_kg''),
      reps = numField parseInt (row ''reps''),
      distance_km = numField parseFloat (row ''distance_km''),
      duration_seconds = numField parseInt (row ''duration_seconds''),
      rpe = numField parseFloat (row ''rpe'')\<rparr>"

text \<open>
  Step 1 for a key the map does not have: the new workout and the clock readings used
  (one for the id, one for each date that does not parse).
\<close>

definition newWorkout ::
  "(string \<Rightarrow> int option) \<Rightarrow> (nat \<Rightarrow> int) \<Rightarrow> (string \<rightharpoonup> string) \<Rightarrow> nat
     \<Rightarrow> ParsedWorkout \<times> nat" where
  "newWorkout dateParse clock row t =
     (case parseDate dateParse clock (row ''start_time'') (Suc t) of
        (startTime, t1) \<Rightarrow>
          (case (if strTruthy (row ''end_time'')
                 then (case parseDate dateParse clock (row ''end_time'') t1 of
                         (e, t2) \<Rightarrow> (Some e, t2))
                 else (None, t1)) of
             (endTime, t2) \<Rightarrow>
               (\<lparr>w_id = ''csv_'' @ workoutKey row @ ''_'' @ showInt (clock t),
                 title = orDefault (row ''title'') ''Unnamed Workout'',
                 start_time = startTime,
                 end_time = endTime,
                 description = cleanString (row ''description''),
                 exercises = [],
                 estimated_volume_kg = Some (Fin 0)\<rparr>, t2)))"

text \<open>Step 2 for a title the workout does not have.\<close>

definition newExercise :: "ParsedWorkout \<Rightarrow> (string \<rightharpoonup> string) \<Rightarrow> ParsedExercise" where
  "newExercise workout row =
     \<lparr>ex_id = w_id workout @ ''_ex_'' @ showNat (length (exercises workout)) @ ''_''
             @ tmpl (row ''exercise_title''),
      ex_title = orDefault (row ''exercise_title'') ''Unknown Exercise'',
      superset_id = cleanString (row ''superset_id''),
      ex_notes = cleanString (row ''exercise_notes''),
      sets = []\<rparr>"

text \<open>\<open>exercise.sets.push(set)\<close> on the exercise that \<open>find\<close> returned: the first one
  whose title is the cell.\<close>

fun pushSet :: "string option \<Rightarrow> ParsedSet \<Rightarrow> ParsedExercise list \<Rightarrow> ParsedExercise list" where
  "pushSet cell s [] = []"
| "pushSet cell s (ex # exs) =
     (if Some (ex_title ex) = cell then ex\<lparr>sets := sets ex @ [s]\<rparr> # exs
      else ex # pushSet cell s exs)"

text \<open>Steps 2 and 3 and the volume update (\<open>if (weight && reps)\<close>), on the workout of
  the row.\<close>

definition addRow :: "(string \<rightharpoonup> string) \<Rightarrow> nat \<Rightarrow> int \<Rightarrow> ParsedWorkout \<Rightarrow> ParsedWorkout" where
  "addRow row i now workout =
     (let s = buildSet row i now;
          exs = (case find (\<lambda>ex. Some (ex_title ex) = row ''exercise_title'') (exercises workout) of
                   None \<Rightarrow> exercises workout @ [(newExercise workout row)\<lparr>sets := [s]\<rparr>]
                 | Some ex \<Rightarrow> pushSet (row ''exercise_title'') s (exercises workout))
      in workout\<lparr>exercises := exs,
                 estimated_volume_kg :=
                   (case (weight_kg s, reps s) of
                      (Some weight, Some r) \<Rightarrow>
                        if truthy weight \<and> truthy r
                        then Some (js_add (orZero (estimated_volume_kg workout))
                                     (js_mul weight r))
                        else estimated_volume_kg workout
                    | _ \<Rightarrow> estimated_volume_kg workout)\<rparr>)"

text \<open>
  The body of the row loop for a row that passed the shape check. The state is
  \<open>workoutsMap\<close>, a \<open>Map\<close> in insertion order, and the number of clock readings.
\<close>

definition processRow ::
  "(string \<Rightarrow> int option) \<Rightarrow> (nat \<Rightarrow> int) \<Rightarrow> nat \<Rightarrow> (string \<rightharpoonup> string)
     \<Rightarrow> (string \<times> ParsedWorkout) list \<times> nat \<Rightarrow> (string \<times> ParsedWorkout) list \<times> nat" where
  "processRow dateParse clock i row st =
     (case st of
        (workoutsMap, t) \<Rightarrow>
          (case (case map_of workoutsMap (workoutKey row) of
                   None \<Rightarrow> newWorkout dateParse clock row t
                 | Some w \<Rightarrow> (w, t)) of
             (workout, t1) \<Rightarrow>
               (AList.update (workoutKey row) (addRow row i (clock t1) workout) workoutsMap,
                Suc t1)))"

text \<open>The loop over the lines after the header; \<open>i\<close> is the index of the line.\<close>

fun rowsLoop ::
  "(string \<Rightarrow> int option) \<Rightarrow> (nat \<Rightarrow> int) \<Rightarrow> string list \<Rightarrow> nat \<Rightarrow> string list
     \<Rightarrow> (string \<times> ParsedWorkout) list \<times> nat \<Rightarrow> (string \<times> ParsedWorkout) list \<times> nat" where
  "rowsLoop dateParse clock headers i [] st = st"
| "rowsLoop dateParse clock headers i (l # ls) st =
     (let lineData = trim l in
      if lineData = [] then rowsLoop dateParse clock headers (Suc i) ls st
      else
        let vals = parseCSVLine lineData in
        if length vals \<noteq> length headers then rowsLoop dateParse clock headers (Suc i) ls st
        else rowsLoop dateParse clock headers (Suc i) ls
               (processRow dateParse clock i (mkRow headers vals) st))"

text \<open>\<open>workoutsMap\<close> when the loop is done.\<close>

definition buildWorkoutsMap ::
  "(string \<Rightarrow> int option) \<Rightarrow> (nat \<Rightarrow> int) \<Rightarrow> string
     \<Rightarrow> error + (string \<times> ParsedWorkout) list" where
  "buildWorkoutsMap dateParse clock csvContent =
     (case splitLines (trim csvContent) of
        [] \<Rightarrow> Inl EmptyInput
      | headerLine # rest \<Rightarrow>
          if headerLine = [] then Inl FormatError
          else Inr (fst (rowsLoop dateParse clock (parseCSVLine headerLine) 1 rest ([], 0))))"

text \<open>\<open>sort((a, b) => b.start_time - a.start_time)\<close>: stable, newest first.\<close>

definition parseCSV ::
  "(string \<Rightarrow> int option) \<Rightarrow> (nat \<Rightarrow> int) \<Rightarrow> string \<Rightarrow> error + ParsedWorkout list" where
  "parseCSV dateParse clock csvContent =
     (case buildWorkoutsMap dateParse clock csvContent of
        Inl e \<Rightarrow> Inl e
      | Inr workoutsMap \<Rightarrow> Inr (sort_key (\<lambda>w. - start_time w) (map snd workoutsMap)))"

subsection \<open>validateCSVFile\<close>






section \<open>The total volume in the words of the specification\<close>

text \<open>
  The sum of \<open>weight_kg * reps\<close> over the sets in which both are present (not \<open>null\<close>),
  rounded once at the end: the sets without one of the two are left out of the sum.
\<close>

definition allSets :: "ParsedWorkout list \<Rightarrow> ParsedSet list" where
  "allSets workouts = concat (map sets (concat (map exercises workouts)))"

definition presentProduct :: "ParsedSet \<Rightarrow> jsnum option" where
  "presentProduct s =
     (case weight_kg s of
        None \<Rightarrow> None
      | Some w \<Rightarrow> (case reps s of None \<Rightarrow> None | Some r \<Rightarrow> Some (js_mul w r)))"

definition totalVolumeSpec :: "ParsedWorkout list \<Rightarrow> jsnum" where
  "totalVolumeSpec workouts =
     js_round (foldl js_add (Fin 0) (List.map_filter presentProduct (allSets workouts)))"

section \<open>The first matching pattern\<close>

text \<open>The first entry of the table whose pattern the name includes, and the muscle
  groups an exercise is counted for: those of that entry, none without a match.\<close>

definition firstMatch :: "string \<Rightarrow> (string \<times> string list) option" where
  "firstMatch name = find (\<lambda>entry. includesStr name (fst entry)) exerciseToMuscle"

definition musclesOf :: "ParsedExercise \<Rightarrow> string list" where
  "musclesOf exercise =
     (case firstMatch (toLowerCase (ex_title exercise)) of
        None \<Rightarrow> []
      | Some entry \<Rightarrow> snd entry)"

section \<open>The rows that the loop folds\<close>

text \<open>
  The rows of a parse: the lines after the header that are not blank and have as many
  fields as the header, each mapped against the header. These are the lines for which
  the loop reaches its body; the others are skipped by \<open>continue\<close>.
\<close>

definition acceptedRows :: "string list \<Rightarrow> string list \<Rightarrow> (string \<rightharpoonup> string) list" where
  "acceptedRows headers ls =
     map (\<lambda>l. mkRow headers (parseCSVLine (trim l)))
       (filter (\<lambda>l. trim l \<noteq> [] \<and> length (parseCSVLine (trim l)) = length headers) ls)"

definition csvRows :: "string \<Rightarrow> (string \<rightharpoonup> string) list" where
  "csvRows csvContent =
     (case splitLines (trim csvContent) of
        [] \<Rightarrow> []
      | headerLine # rest \<Rightarrow> acceptedRows (parseCSVLine headerLine) rest)"

text \<open>The number of sets held by a workout.\<close>

definition setCount :: "ParsedWorkout \<Rightarrow> nat" where
  "setCount w = sum_list (map (\<lambda>ex. length (sets ex)) (exercises w))"

section \<open>Titles up to letter case\<close>

text \<open>A workout with the title of every exercise rewritten by \<open>f\<close>; the spelling of a title
  changes and nothing else.\<close>

definition retitle :: "(string \<Rightarrow> string) \<Rightarrow> ParsedWorkout \<Rightarrow> ParsedWorkout" where
  "retitle f w =
     w\<lparr>exercises := map (\<lambda>e. e\<lparr>ex_title := f (ex_title e)\<rparr>) (exercises w)\<rparr>"

section \<open>Running maxima per title\<close>

text \<open>
  Notions in which the record detector is described: the larger of a maximum and a new
  value (the new one only when strictly greater), the maxima held for a title (zeros
  before its first exercise), the sets recorded under a title by a list of exercises, in
  order, and the two kinds of set the detector looks at.
\<close>

definition jsMax :: "jsnum \<Rightarrow> jsnum \<Rightarrow> jsnum" where
  "jsMax m x = (if js_gt x m then x else m)"

definition maximaOf :: "(string \<rightharpoonup> PRs) \<Rightarrow> string \<Rightarrow> PRs" where
  "maximaOf m k = (case m k of None \<Rightarrow> zeroPRs | Some p \<Rightarrow> p)"

definition setsOfTitle :: "string \<Rightarrow> ParsedExercise list \<Rightarrow> ParsedSet list" where
  "setsOfTitle k es = concat (map sets (filter (\<lambda>e. toLowerCase (ex_title e) = k) es))"

definition weighted :: "ParsedSet \<Rightarrow> bool" where
  "weighted s = (js_gt (orZero (weight_kg s)) (Fin 0) \<and> js_gt (orZero (reps s)) (Fin 0))"

definition bodyweight :: "ParsedSet \<Rightarrow> bool" where
  "bodyweight s = (js_gt (orZero (reps s)) (Fin 0) \<and> orZero (weight_kg s) = Fin 0)"

section \<open>Sample data\<close>

text \<open>Concrete sets, exercises and workouts on which the theorems below are instantiated.\<close>

definition sampleSet :: "jsnum option \<Rightarrow> jsnum option \<Rightarrow> ParsedSet" where
  "sampleSet w r =
     \<lparr>set_id = ''s'', index = Fin 1, set_type = Some ''normal'', weight_kg = w, reps = r,
      distance_km = None, duration_seconds = None, rpe = None\<rparr>"

definition sampleExercise :: "string \<Rightarrow> ParsedSet list \<Rightarrow> ParsedExercise" where
  "sampleExercise t ss =
     \<lparr>ex_id = ''e'', ex_title = t, superset_id = None, ex_notes = None, sets = ss\<rparr>"

definition sampleWorkout :: "int \<Rightarrow> ParsedExercise list \<Rightarrow> ParsedWorkout" where
  "sampleWorkout t es =
     \<lparr>w_id = ''w'', title = ''Push Day'', start_time = t, end_time = None, description = None,
      exercises = es, estimated_volume_kg = None\<rparr>"

text \<open>CSV texts with the header of a Hevy export, and a host date parser that knows two
  dates (their time values at midnight UTC).\<close>

definition sampleHeader :: string where
  "sampleHeader =
     ''title,start_time,end_time,description,exercise_title,superset_id,exercise_notes,''
     @ ''set_index,set_type,weight_kg,reps,distance_km,duration_seconds,rpe''"

definition csvText :: "string list \<Rightarrow> string" where
  "csvText dataLines = concat (map (\<lambda>l. l @ [CHR 0x0A]) (sampleHeader # dataLines))"

definition csvMerged :: string where
  "csvMerged =
     csvText [''A_B,C,,,Squat,,,1,normal,100,5,,,'', ''A,B_C,,,Squat,,,2,normal,100,5,,,'']"

definition csvTwoDays :: string where
  "csvTwoDays =
     csvText [''Legs,1 Jan 2025,,,Squat,,,1,normal,100,5,,,'',
              ''Push,2 Jan 2025,,,Bench Press,,,1,normal,60,8,,,'',
              ''Legs,1 Jan 2025,,,Squat,,,2,normal,105,5,,,'']"

definition csvLetterCase :: string where
  "csvLetterCase =
     csvText [''Legs,1 Jan 2025,,,Squat,,,1,normal,100,5,,,'',
              ''Legs,1 Jan 2025,,,SQUAT,,,2,normal,100,5,,,'']"

definition csvNonNumeric :: string where
  "csvNonNumeric = csvText [''Legs,1 Jan 2025,,,Squat,,,1,normal,abc,n/a,,,'']"

definition csvInfiniteWeight :: string where
  "csvInfiniteWeight = csvText [''Legs,1 Jan 2025,,,Squat,,,1,normal,Infinity,,,,'']"


definition sampleDateParse :: "string \<Rightarrow> int option" where
  "sampleDateParse s =
     (if s = ''1 Jan 2025'' then Some 1735689600000
      else if s = ''2 Jan 2025'' then Some 1735776000000
      else if s = ''16 Dec 2025, 15:06'' then Some 1765897560000
      else None)"

definition sampleClock :: "nat \<Rightarrow> int" where
  "sampleClock n = 1767225600000 + 1000 * int n"

section \<open>Properties of the muscle distribution\<close>

lemma matchPatterns_find:
  "matchPatterns tbl name n groups =
     (case find (\<lambda>entry. includesStr name (fst entry)) tbl of
        None \<Rightarrow> groups
      | Some entry \<Rightarrow> fold (addSets n) (snd entry) groups)"
  by (induction tbl) auto

lemma addSets_apply:
  "addSets n m groups g = (if g = m then map_option (\<lambda>c. c + n) (groups g) else groups g)"
  by (cases "groups m") (auto simp: addSets_def)

lemma fold_addSets:
  "distinct ms \<Longrightarrow>
   fold (addSets n) ms groups g =
     (if g \<in> set ms then map_option (\<lambda>c. c + n) (groups g) else groups g)"
  by (induction ms arbitrary: groups) (auto simp: addSets_apply)

lemma table_distinct: "entry \<in> set exerciseToMuscle \<Longrightarrow> distinct (snd entry)"
  by (auto simp: exerciseToMuscle_def)

lemma firstMatch_distinct: "firstMatch name = Some entry \<Longrightarrow> distinct (snd entry)"
  unfolding firstMatch_def by (auto simp: find_Some_iff intro!: table_distinct)

lemma muscleExercise_apply:
  "muscleExercise ex groups g =
     (if g \<in> set (musclesOf ex) then map_option (\<lambda>c. c + length (sets ex)) (groups g)
      else groups g)"
proof (cases "firstMatch (toLowerCase (ex_title ex))")
  case None
  then show ?thesis
    by (simp add: muscleExercise_def matchPatterns_find musclesOf_def firstMatch_def)
next
  case (Some entry)
  then have "distinct (snd entry)" by (rule firstMatch_distinct)
  with Some show ?thesis
    using Some [unfolded firstMatch_def]
    by (simp add: muscleExercise_def matchPatterns_find musclesOf_def fold_addSets)
qed

lemma fold_muscleExercise:
  "fold muscleExercise exs groups g =
     map_option (\<lambda>c. c + (\<Sum>ex\<leftarrow>exs. if g \<in> set (musclesOf ex) then length (sets ex) else 0))
       (groups g)"
proof (induction exs arbitrary: groups)
  case Nil
  then show ?case by (simp add: option.map_ident)
next
  case (Cons ex exs)
  have "fold muscleExercise (ex # exs) groups g = fold muscleExercise exs (muscleExercise ex groups) g"
    by simp
  also have "\<dots> = map_option (\<lambda>c. c + (\<Sum>ex\<leftarrow>exs. if g \<in> set (musclesOf ex) then length (sets ex) else 0))
       (muscleExercise ex groups g)"
    by (rule Cons.IH)
  also have "\<dots> = map_option (\<lambda>c. c + (\<Sum>ex\<leftarrow>ex # exs. if g \<in> set (musclesOf ex) then length (sets ex) else 0))
       (groups g)"
    by (cases "groups g") (simp_all add: muscleExercise_apply)
  finally show ?case .
qed

lemma fold_fold_concat: "fold (\<lambda>x. fold f (h x)) xs s = fold f (concat (map h xs)) s"
  by (induction xs arbitrary: s) simp_all

lemma muscleGroups0_apply: "muscleGroups0 g = (if g \<in> set groupNames then Some 0 else None)"
  by (simp add: muscleGroups0_def groupNames_def)

lemma distribution_flat:
  "calculateMuscleDistribution workouts =
     fold muscleExercise (concat (map exercises workouts)) muscleGroups0"
  by (simp add: calculateMuscleDistribution_def fold_fold_concat)

lemma romanian_deadlift_match:
  "firstMatch (toLowerCase ''Romanian Deadlift'') = Some (''deadlift'', [''back'', ''legs''])"
  by code_simp

text \<open>
  C6. An exercise is tested under its lower-cased title against the table in order; the
  muscle groups of the first entry whose pattern the title includes each receive the
  exercise's whole set count, and an exercise without a match changes nothing. So each of
  the seven groups ends at the sum of the set counts of the exercises whose first match
  maps to it. "Romanian Deadlift" is first matched by the pattern "deadlift", which maps
  to back and legs: an exercise of that title with three sets adds 3 to back and 3 to
  legs and nothing elsewhere.
\<close>

theorem muscle_first_match:
  "muscleExercise ex groups =
     (case firstMatch (toLowerCase (ex_title ex)) of
        None \<Rightarrow> groups
      | Some entry \<Rightarrow>
          (\<lambda>g. if g \<in> set (snd entry) then map_option (\<lambda>c. c + length (sets ex)) (groups g)
               else groups g))
   \<and> calculateMuscleDistribution workouts g =
       (if g \<in> set groupNames
        then Some (\<Sum>ex\<leftarrow>concat (map exercises workouts).
                     if g \<in> set (musclesOf ex) then length (sets ex) else 0)
        else None)
   \<and> firstMatch (toLowerCase ''Romanian Deadlift'') = Some (''deadlift'', [''back'', ''legs''])
   \<and> calculateMuscleDistribution
        [w\<lparr>exercises := [e\<lparr>ex_title := ''Romanian Deadlift'', sets := [s1, s2, s3]\<rparr>]\<rparr>] =
      muscleGroups0(''back'' \<mapsto> 3, ''legs'' \<mapsto> 3)"
proof (intro conjI)
  show "muscleExercise ex groups =
     (case firstMatch (toLowerCase (ex_title ex)) of
        None \<Rightarrow> groups
      | Some entry \<Rightarrow>
          (\<lambda>g. if g \<in> set (snd entry) then map_option (\<lambda>c. c + length (sets ex)) (groups g)
               else groups g))"
    by (rule ext) (simp add: muscleExercise_apply musclesOf_def split: option.splits)
  show "calculateMuscleDistribution workouts g =
       (if g \<in> set groupNames
        then Some (\<Sum>ex\<leftarrow>concat (map exercises workouts).
                     if g \<in> set (musclesOf ex) then length (sets ex) else 0)
        else None)"
    by (simp add: distribution_flat fold_muscleExercise muscleGroups0_apply)
  show r: "firstMatch (toLowerCase ''Romanian Deadlift'') = Some (''deadlift'', [''back'', ''legs''])"
    by (rule romanian_deadlift_match)
  show "calculateMuscleDistribution
        [w\<lparr>exercises := [e\<lparr>ex_title := ''Romanian Deadlift'', sets := [s1, s2, s3]\<rparr>]\<rparr>] =
      muscleGroups0(''back'' \<mapsto> 3, ''legs'' \<mapsto> 3)"
    by (rule ext) (simp add: distribution_flat muscleExercise_apply muscleGroups0_apply musclesOf_def r groupNames_def)
qed

section \<open>Properties of the workout tree builder\<close>

lemma processRow_new:
  "map_of wm (workoutKey row) = None \<Longrightarrow>
   processRow dateParse clock i row (wm, t) =
     (wm @ [(workoutKey row,
             addRow row i (clock (snd (newWorkout dateParse clock row t)))
               (fst (newWorkout dateParse clock row t)))],
      Suc (snd (newWorkout dateParse clock row t)))"
proof -
  assume n: "map_of wm (workoutKey row) = None"
  have app: "\<And>v. AList.update (workoutKey row) v wm = wm @ [(workoutKey row, v)]"
    using n by (induction wm) (auto split: if_splits)
  show ?thesis
    by (simp add: processRow_def n app split: prod.splits)
qed

lemma processRow_old:
  "map_of wm (workoutKey row) = Some w \<Longrightarrow>
   processRow dateParse clock i row (wm, t) =
     (AList.update (workoutKey row) (addRow row i (clock t) w) wm, Suc t)"
  by (simp add: processRow_def)

lemma keys_processRow:
  "map fst (fst (processRow dateParse clock i row (wm, t))) =
     (if workoutKey row \<in> set (map fst wm) then map fst wm else map fst wm @ [workoutKey row])"
  by (simp add: processRow_def AList.update_keys split: prod.splits option.splits)

lemma keys_rowsLoop:
  "distinct (map fst (fst st)) \<Longrightarrow>
   distinct (map fst (fst (rowsLoop dateParse clock headers i ls st)))
   \<and> set (map fst (fst (rowsLoop dateParse clock headers i ls st))) =
       set (map fst (fst st)) \<union> workoutKey ` set (acceptedRows headers ls)"
proof (induction ls arbitrary: i st)
  case Nil
  then show ?case by (simp add: acceptedRows_def)
next
  case (Cons l ls)
  obtain wm t where st: "st = (wm, t)" by (cases st)
  let ?st' = "processRow dateParse clock i (mkRow headers (parseCSVLine (trim l))) st"
  have d: "distinct (map fst (fst ?st'))"
    using Cons.prems unfolding st keys_processRow by simp
  have s: "set (map fst (fst ?st')) = insert (workoutKey (mkRow headers (parseCSVLine (trim l)))) (set (map fst (fst st)))"
    unfolding st keys_processRow by auto
  show ?case
  proof (cases "trim l \<noteq> [] \<and> length (parseCSVLine (trim l)) = length headers")
    case True
    then show ?thesis
      using Cons.IH [OF d, of "Suc i"] s by (simp add: acceptedRows_def Let_def)
  next
    case False
    then show ?thesis
      using Cons.IH [OF Cons.prems, of "Suc i"] by (auto simp: acceptedRows_def Let_def)
  qed
qed


lemma setCount_pushSet:
  "find (\<lambda>ex. Some (ex_title ex) = cell) exs = Some ex \<Longrightarrow>
   sum_list (map (\<lambda>ex. length (sets ex)) (pushSet cell s exs)) =
     Suc (sum_list (map (\<lambda>ex. length (sets ex)) exs))"
  by (induction exs) (auto split: if_splits)

lemma setCount_addRow: "setCount (addRow row i now w) = Suc (setCount w)"
  by (cases "find (\<lambda>ex. Some (ex_title ex) = row ''exercise_title'') (exercises w)")
    (simp_all add: setCount_def addRow_def Let_def setCount_pushSet)

lemma setCount_newWorkout: "setCount (fst (newWorkout dateParse clock row t)) = 0"
  by (simp add: newWorkout_def setCount_def split: prod.splits)

lemma update_sum:
  "map_of wm k = Some w \<Longrightarrow>
   sum_list (map (\<lambda>p. f (snd p)) (AList.update k w' wm)) + f w =
     sum_list (map (\<lambda>p. f (snd p)) wm) + (f w' :: nat)"
  by (induction wm) (auto split: if_splits)

lemma total_processRow:
  "sum_list (map (\<lambda>p. setCount (snd p)) (fst (processRow dateParse clock i row (wm, t)))) =
     Suc (sum_list (map (\<lambda>p. setCount (snd p)) wm))"
proof (cases "map_of wm (workoutKey row)")
  case None
  then show ?thesis
    by (simp add: processRow_new setCount_addRow setCount_newWorkout)
next
  case (Some w)
  show ?thesis
    using update_sum [OF Some, of setCount "addRow row i (clock t) w"]
    by (simp add: processRow_old [OF Some] setCount_addRow)
qed

lemma total_rowsLoop:
  "sum_list (map (\<lambda>p. setCount (snd p)) (fst (rowsLoop dateParse clock headers i ls st))) =
     sum_list (map (\<lambda>p. setCount (snd p)) (fst st)) + length (acceptedRows headers ls)"
proof (induction ls arbitrary: i st)
  case Nil
  then show ?case by (simp add: acceptedRows_def)
next
  case (Cons l ls)
  obtain wm t where st: "st = (wm, t)" by (cases st)
  show ?case
    by (simp add: Cons.IH acceptedRows_def Let_def st total_processRow)
qed

lemma sum_insort_key:
  "sum_list (map g (insort_key f x xs)) = g x + (sum_list (map g xs) :: nat)"
  by (induction xs) simp_all

lemma sum_sort_key: "sum_list (map g (sort_key f xs)) = (sum_list (map g xs) :: nat)"
  by (induction xs) (simp_all add: sum_insort_key)

lemma length_allSets: "length (allSets ws) = sum_list (map setCount ws)"
  by (induction ws) (simp_all add: allSets_def setCount_def length_concat comp_def)

lemma sorted_descending:
  "sorted_wrt (\<lambda>a b. start_time b \<le> start_time a) (sort_key (\<lambda>w. - start_time w) ws)"
proof -
  have "sorted (map (\<lambda>w. - start_time w) (sort_key (\<lambda>w. - start_time w) ws))"
    by (rule sorted_sort_key)
  then show ?thesis by (simp add: sorted_map)
qed

text \<open>What \<open>parseCSV\<close> returns, in terms of the map it built and the rows it folded.\<close>

lemma parseCSV_map:
  assumes "parseCSV dateParse clock csvContent = Inr workouts"
  shows "\<exists>workoutsMap.
           buildWorkoutsMap dateParse clock csvContent = Inr workoutsMap
           \<and> workouts = sort_key (\<lambda>w. - start_time w) (map snd workoutsMap)
           \<and> distinct (map fst workoutsMap)
           \<and> set (map fst workoutsMap) = workoutKey ` set (csvRows csvContent)
           \<and> sum_list (map (\<lambda>p. setCount (snd p)) workoutsMap) = length (csvRows csvContent)"
proof -
  from assms obtain wm where b: "buildWorkoutsMap dateParse clock csvContent = Inr wm"
    and w: "workouts = sort_key (\<lambda>w. - start_time w) (map snd wm)"
    by (auto simp: parseCSV_def split: sum.splits)
  from b obtain headerLine rest where l: "splitLines (trim csvContent) = headerLine # rest"
    and wm: "wm = fst (rowsLoop dateParse clock (parseCSVLine headerLine) 1 rest ([], 0))"
    by (auto simp: buildWorkoutsMap_def split: list.splits if_splits)
  have rows: "csvRows csvContent = acceptedRows (parseCSVLine headerLine) rest"
    by (simp add: csvRows_def l)
  have k: "distinct (map fst wm)" "set (map fst wm) = workoutKey ` set (csvRows csvContent)"
    using keys_rowsLoop [of "([], 0)" dateParse clock "parseCSVLine headerLine" 1 rest]
    by (simp_all add: wm rows)
  have n: "sum_list (map (\<lambda>p. setCount (snd p)) wm) = length (csvRows csvContent)"
    using total_rowsLoop [of dateParse clock "parseCSVLine headerLine" 1 rest "([], 0)"]
    by (simp add: wm rows)
  from b w k n show ?thesis by blast
qed

text \<open>
  C2. Whenever \<open>parseCSV\<close> returns, its result is ordered by \<open>start_time\<close>, newest first,
  and it is the sorted list of the values of \<open>workoutsMap\<close>, whose keys are distinct and
  are exactly the dedup keys of the rows the loop folded: one workout per key, and every
  row added one set to the workout of its key. In the loop body, a row whose key the map
  already has replaces that workout by the workout with the row added and leaves the
  keys of the map as they were.
\<close>

theorem parseCSV_sorted_dedup:
  "(parseCSV dateParse clock csvContent = Inr workouts \<longrightarrow>
      sorted_wrt (\<lambda>a b. start_time b \<le> start_time a) workouts
      \<and> (\<exists>workoutsMap.
            buildWorkoutsMap dateParse clock csvContent = Inr workoutsMap
            \<and> workouts = sort_key (\<lambda>w. - start_time w) (map snd workoutsMap)
            \<and> distinct (map fst workoutsMap)
            \<and> set (map fst workoutsMap) = workoutKey ` set (csvRows csvContent))
      \<and> length workouts = card (workoutKey ` set (csvRows csvContent))
      \<and> length (allSets workouts) = length (csvRows csvContent))
   \<and> (map_of workoutsMap (workoutKey row) = Some w \<longrightarrow>
        fst (processRow dateParse clock i row (workoutsMap, t)) =
          AList.update (workoutKey row) (addRow row i (clock t) w) workoutsMap
        \<and> map fst (fst (processRow dateParse clock i row (workoutsMap, t))) = map fst workoutsMap)"
proof (intro conjI impI)
  assume "parseCSV dateParse clock csvContent = Inr workouts"
  then obtain wm where b: "buildWorkoutsMap dateParse clock csvContent = Inr wm"
    and w: "workouts = sort_key (\<lambda>w. - start_time w) (map snd wm)"
    and k: "distinct (map fst wm)" "set (map fst wm) = workoutKey ` set (csvRows csvContent)"
    and n: "sum_list (map (\<lambda>p. setCount (snd p)) wm) = length (csvRows csvContent)"
    using parseCSV_map by blast
  show "sorted_wrt (\<lambda>a b. start_time b \<le> start_time a) workouts"
    unfolding w by (rule sorted_descending)
  show "\<exists>workoutsMap.
            buildWorkoutsMap dateParse clock csvContent = Inr workoutsMap
            \<and> workouts = sort_key (\<lambda>w. - start_time w) (map snd workoutsMap)
            \<and> distinct (map fst workoutsMap)
            \<and> set (map fst workoutsMap) = workoutKey ` set (csvRows csvContent)"
    using b w k by blast
  have "length workouts = length (map fst wm)" by (simp add: w)
  also have "\<dots> = card (set (map fst wm))" using k(1) by (rule distinct_card [symmetric])
  finally show "length workouts = card (workoutKey ` set (csvRows csvContent))"
    by (simp only: k(2))
  have "length (allSets workouts) = sum_list (map (\<lambda>p. setCount (snd p)) wm)"
    by (simp add: length_allSets w sum_sort_key comp_def)
  then show "length (allSets workouts) = length (csvRows csvContent)"
    by (simp only: n)
next
  assume m: "map_of workoutsMap (workoutKey row) = Some w"
  show "fst (processRow dateParse clock i row (workoutsMap, t)) =
          AList.update (workoutKey row) (addRow row i (clock t) w) workoutsMap"
    by (simp add: processRow_old [OF m])
  from m have "workoutKey row \<in> set (map fst workoutsMap)"
    by (metis map_of_eq_None_iff option.distinct(1) set_map)
  then show "map fst (fst (processRow dateParse clock i row (workoutsMap, t))) = map fst workoutsMap"
    by (simp add: keys_processRow)
qed

section \<open>Properties of the date normalizer\<close>

lemma normalizeMonths_find:
  "normalizeMonths tbl s =
     (case find (\<lambda>entry. includesStr s (fst entry)) tbl of
        None \<Rightarrow> s
      | Some entry \<Rightarrow> replaceFirst s (fst entry) (snd entry))"
  by (induction tbl) auto

lemma normalize_dez: "normalizeMonths germanMonths ''16 Dez 2025, 15:06'' = ''16 Dec 2025, 15:06''"
  by code_simp

lemma normalize_dec: "normalizeMonths germanMonths ''16 Dec 2025, 15:06'' = ''16 Dec 2025, 15:06''"
  by code_simp

text \<open>
  C7. The loop over the month table rewrites "16 Dez 2025, 15:06" to
  "16 Dec 2025, 15:06" and leaves the English string as it is (in general it replaces
  the first occurrence of the first abbreviation of the table that the input contains),
  so both reach the host's date parser as the same string: \<open>parseDate\<close> returns the same
  value for both, and when the host parses that string the value is its time in whole
  seconds, whatever the clock reads.
\<close>

theorem german_dez_same_instant:
  "normalizeMonths germanMonths ''16 Dez 2025, 15:06'' = ''16 Dec 2025, 15:06''
   \<and> normalizeMonths germanMonths ''16 Dec 2025, 15:06'' = ''16 Dec 2025, 15:06''
   \<and> parseDate dateParse clock (Some ''16 Dez 2025, 15:06'') t =
       parseDate dateParse clock (Some ''16 Dec 2025, 15:06'') t
   \<and> (dateParse ''16 Dec 2025, 15:06'' = Some ms \<longrightarrow>
        parseDate dateParse clock (Some ''16 Dez 2025, 15:06'') t = (ms div 1000, t)
        \<and> parseDate dateParse clock' (Some ''16 Dec 2025, 15:06'') t' = (ms div 1000, t'))
   \<and> normalizeMonths germanMonths s =
       (case find (\<lambda>entry. includesStr s (fst entry)) germanMonths of
          None \<Rightarrow> s
        | Some entry \<Rightarrow> replaceFirst s (fst entry) (snd entry))"
  by (simp add: normalize_dez normalize_dec parseDate_def parseDateTry_def
      normalizeMonths_find [of germanMonths s])

theorem german_dez_same_instant_witness:
  "sampleDateParse ''16 Dec 2025, 15:06'' = Some 1765897560000
   \<and> parseDate sampleDateParse sampleClock (Some ''16 Dez 2025, 15:06'') 0 = (1765897560, 0)
   \<and> parseDate sampleDateParse sampleClock (Some ''16 Dec 2025, 15:06'') 7 = (1765897560, 7)"
proof -
  have h: "sampleDateParse ''16 Dec 2025, 15:06'' = Some 1765897560000"
    by (simp add: sampleDateParse_def)
  note g = german_dez_same_instant
    [of sampleDateParse sampleClock 0 1765897560000 sampleClock 7 "[]"]
  from g h have a:
    "parseDate sampleDateParse sampleClock (Some ''16 Dez 2025, 15:06'') 0 =
       (1765897560000 div 1000, 0)"
    by blast
  from g h have b:
    "parseDate sampleDateParse sampleClock (Some ''16 Dec 2025, 15:06'') 7 =
       (1765897560000 div 1000, 7)"
    by blast
  from a b h show ?thesis by simp
qed

subsection \<open>The fallback of the date normalizer\<close>

lemma valid_div_1000:
  assumes "validTime ms"
  shows "validTime (ms div 1000 * 1000)"
proof -
  from assms have b: "- 8640000000000000 \<le> ms" "ms \<le> 8640000000000000"
    by (simp_all add: validTime_def abs_le_iff)
  have "(- 8640000000000000) div 1000 \<le> ms div 1000"
    using b(1) by (rule zdiv_mono1) simp
  then have lo: "- 8640000000000 \<le> ms div 1000" by simp
  have "ms div 1000 \<le> 8640000000000000 div 1000"
    using b(2) by (rule zdiv_mono1) simp
  then have hi: "ms div 1000 \<le> 8640000000000" by simp
  from lo hi show ?thesis by (simp add: validTime_def abs_le_iff)
qed

lemma parseDate_valid:
  assumes "\<And>s ms. dateParse s = Some ms \<Longrightarrow> validTime ms" "\<And>n. validTime (clock n)"
  shows "validTime (fst (parseDate dateParse clock dateString t) * 1000)"
  using assms
  by (auto simp: parseDate_def parseDateTry_def valid_div_1000 split: option.splits)

lemma start_time_addRow: "start_time (addRow row i now w) = start_time w"
  by (simp add: addRow_def Let_def)

lemma start_time_newWorkout:
  "start_time (fst (newWorkout dateParse clock row t)) =
     fst (parseDate dateParse clock (row ''start_time'') (Suc t))"
  by (simp add: newWorkout_def split: prod.splits)

lemma set_update_subset: "set (AList.update k v al) \<subseteq> insert (k, v) (set al)"
  by (induction al) auto

lemma processRow_valid:
  assumes "\<And>s ms. dateParse s = Some ms \<Longrightarrow> validTime ms" "\<And>n. validTime (clock n)"
    and "\<forall>p\<in>set wm. validTime (start_time (snd p) * 1000)"
  shows "\<forall>p\<in>set (fst (processRow dateParse clock i row (wm, t))).
           validTime (start_time (snd p) * 1000)"
proof (cases "map_of wm (workoutKey row)")
  case None
  show ?thesis
    using assms(3) parseDate_valid [OF assms(1,2)]
    by (simp add: processRow_new [OF None] start_time_addRow start_time_newWorkout)
next
  case (Some w)
  then have "(workoutKey row, w) \<in> set wm" by (rule map_of_SomeD)
  with assms(3) have "validTime (start_time w * 1000)" by force
  then show ?thesis
    using assms(3) set_update_subset [of "workoutKey row" "addRow row i (clock t) w" wm]
    by (auto simp: processRow_old [OF Some] start_time_addRow)
qed

lemma rowsLoop_valid:
  assumes "\<And>s ms. dateParse s = Some ms \<Longrightarrow> validTime ms" "\<And>n. validTime (clock n)"
  shows "\<forall>p\<in>set (fst st). validTime (start_time (snd p) * 1000) \<Longrightarrow>
         \<forall>p\<in>set (fst (rowsLoop dateParse clock headers i ls st)).
           validTime (start_time (snd p) * 1000)"
proof (induction ls arbitrary: i st)
  case Nil
  then show ?case by simp
next
  case (Cons l ls)
  obtain wm t where st: "st = (wm, t)" by (cases st)
  have "\<forall>p\<in>set (fst (processRow dateParse clock i (mkRow headers (parseCSVLine (trim l))) st)).
           validTime (start_time (snd p) * 1000)"
    unfolding st using Cons.prems [unfolded st] processRow_valid [OF assms] by simp
  then show ?case
    using Cons.IH Cons.prems by (simp add: Let_def)
qed

lemma prWorkouts_total:
  "\<forall>w\<in>set ws. validTime (start_time w * 1000) \<Longrightarrow> \<exists>r. prWorkouts m acc ws = Inr r"
proof (induction ws arbitrary: m acc)
  case Nil
  then show ?case by simp
next
  case (Cons w ws)
  then have "validTime (start_time w * 1000)" by simp
  then obtain d where "isoDate (start_time w * 1000) = Inr d"
    by (cases "civil (start_time w * 1000 div 86400000)") (simp add: isoDate_def)
  then show ?case
    using Cons by (simp split: prod.splits)
qed

lemma prs_total:
  "\<forall>w\<in>set ws. validTime (start_time w * 1000) \<Longrightarrow> \<exists>r. calculatePRsOverTime ws = Inr r"
  using prWorkouts_total [of "sort_key start_time ws" Map.empty "[]"]
  by (auto simp: calculatePRsOverTime_def)

lemma parse_valid:
  assumes "\<And>s ms. dateParse s = Some ms \<Longrightarrow> validTime ms" "\<And>n. validTime (clock n)"
    and "parseCSV dateParse clock csvContent = Inr workouts"
  shows "\<forall>w\<in>set workouts. validTime (start_time w * 1000)"
proof -
  from assms(3) obtain headerLine rest where
    w: "workouts = sort_key (\<lambda>w. - start_time w)
          (map snd (fst (rowsLoop dateParse clock (parseCSVLine headerLine) 1 rest ([], 0))))"
    by (auto simp: parseCSV_def buildWorkoutsMap_def split: sum.splits list.splits if_splits)
  show ?thesis
    unfolding w
    using rowsLoop_valid [OF assms(1,2), where st = "([], 0)"
        and headers = "parseCSVLine headerLine" and i = 1 and ls = rest]
    by auto
qed


lemma dropWhile_snoc_keep: "\<not> P d \<Longrightarrow> dropWhile P (xs @ [d]) = dropWhile P xs @ [d]"
  by (induction xs) simp_all

text \<open>A trimmed string does not begin with white space.\<close>

lemma trim_head: "trim s = c # cs \<Longrightarrow> \<not> isWhite c"
proof -
  assume a: "trim s = c # cs"
  let ?u = "dropWhile isWhite s"
  have "?u \<noteq> []"
  proof
    assume e: "?u = []"
    have "trim s = rev (dropWhile isWhite (rev ?u))" by (simp only: trim_def)
    also have "\<dots> = []" unfolding e by simp
    finally show False using a by simp
  qed
  then obtain d u' where u: "?u = d # u'" by (cases ?u) auto
  then have d: "\<not> isWhite d" by (metis hd_dropWhile list.sel(1) list.distinct(1))
  have "dropWhile isWhite (rev ?u) = dropWhile isWhite (rev u') @ [d]"
    using d by (simp add: u dropWhile_snoc_keep)
  with a have "c = d" by (simp add: trim_def)
  with d show ?thesis by simp
qed

lemma splitLines_nonempty: "splitLines s \<noteq> []"
  by (induction s) (auto split: list.splits)

lemma first_line_nonempty:
  assumes "trim s \<noteq> []"
  shows "\<exists>l ls. splitLines (trim s) = l # ls \<and> l \<noteq> []"
proof -
  from assms obtain c cs where t: "trim s = c # cs" by (cases "trim s") auto
  then have "\<not> isWhite c" by (rule trim_head)
  then have "c \<noteq> CHR 0x0A" by (auto simp: isWhite_def)
  then show ?thesis
    unfolding t using splitLines_nonempty [of cs] by (cases "splitLines cs") auto
qed

lemma parseCSV_total:
  "trim csvContent \<noteq> [] \<Longrightarrow> \<exists>workouts. parseCSV dateParse clock csvContent = Inr workouts"
  using first_line_nonempty [of csvContent]
  by (auto simp: parseCSV_def buildWorkoutsMap_def)

text \<open>
  C8. \<open>parseDate\<close> has a value for every input. When the body of its \<open>try\<close> throws (the
  input is \<open>undefined\<close>) or the host cannot parse the normalized string, the value is
  the clock reading in whole seconds. So \<open>parseCSV\<close> returns for every text that is not
  blank, whatever the dates are, and on its result \<open>calculatePRsOverTime\<close> returns as
  well (given that the host's parser and clock yield valid time values);
  \<open>calculateTotalVolume\<close> cannot fail at all.
\<close>

theorem parseDate_never_raises:
  "parseDate dateParse clock None t = (clock t div 1000, Suc t)
   \<and> (parseDateTry dateParse clock dateString t = Inl e \<longrightarrow>
        parseDate dateParse clock dateString t = (clock t div 1000, Suc t))
   \<and> (dateParse (normalizeMonths germanMonths s) = None \<longrightarrow>
        parseDate dateParse clock (Some s) t = (clock t div 1000, Suc t))
   \<and> (trim csvContent \<noteq> [] \<longrightarrow>
        (\<exists>workouts. parseCSV dateParse clock csvContent = Inr workouts))
   \<and> ((\<forall>s ms. dateParse s = Some ms \<longrightarrow> validTime ms) \<and> (\<forall>n. validTime (clock n))
        \<and> parseCSV dateParse clock csvContent = Inr workouts \<longrightarrow>
        (\<exists>prs. calculatePRsOverTime workouts = Inr prs))"
proof (intro conjI impI)
  show "parseDate dateParse clock None t = (clock t div 1000, Suc t)"
    by (simp add: parseDate_def parseDateTry_def)
  show "parseDate dateParse clock dateString t = (clock t div 1000, Suc t)"
    if "parseDateTry dateParse clock dateString t = Inl e"
    using that by (simp add: parseDate_def)
  show "parseDate dateParse clock (Some s) t = (clock t div 1000, Suc t)"
    if "dateParse (normalizeMonths germanMonths s) = None"
    using that by (simp add: parseDate_def parseDateTry_def)
  show "\<exists>workouts. parseCSV dateParse clock csvContent = Inr workouts"
    if "trim csvContent \<noteq> []"
    using that by (rule parseCSV_total)
  show "\<exists>prs. calculatePRsOverTime workouts = Inr prs"
    if h: "(\<forall>s ms. dateParse s = Some ms \<longrightarrow> validTime ms) \<and> (\<forall>n. validTime (clock n))
        \<and> parseCSV dateParse clock csvContent = Inr workouts"
  proof -
    from h have "\<forall>w\<in>set workouts. validTime (start_time w * 1000)"
      using parse_valid [of dateParse clock csvContent workouts] by blast
    then show ?thesis by (rule prs_total)
  qed
qed

lemma two_days_nonblank: "trim csvTwoDays \<noteq> []"
  by code_simp

theorem parseDate_never_raises_witness:
  "parseDateTry (\<lambda>s. None) (\<lambda>n. 1767225600000) None 0 = Inl TypeError
   \<and> parseDate (\<lambda>s. None) (\<lambda>n. 1767225600000) None 0 = (1767225600, 1)
   \<and> (\<lambda>s. None) (normalizeMonths germanMonths ''gestern'') = (None :: int option)
   \<and> parseDate (\<lambda>s. None) (\<lambda>n. 1767225600000) (Some ''gestern'') 0 = (1767225600, 1)
   \<and> trim csvTwoDays \<noteq> []
   \<and> (\<forall>n. validTime ((\<lambda>n. 1767225600000) n))
   \<and> (\<exists>workouts prs.
         parseCSV (\<lambda>s. None) (\<lambda>n. 1767225600000) csvTwoDays = Inr workouts
         \<and> calculatePRsOverTime workouts = Inr prs)"
proof -
  let ?dp = "\<lambda>s :: string. None :: int option"
  let ?clock = "\<lambda>n :: nat. 1767225600000 :: int"
  have v: "\<forall>n. validTime (?clock n)" by (simp add: validTime_def)
  have t: "parseDateTry ?dp ?clock None 0 = Inl TypeError" by (simp add: parseDateTry_def)
  note p = parseDate_never_raises [of ?dp ?clock 0 None TypeError "''gestern''" csvTwoDays]
  from p t have a: "parseDate ?dp ?clock None 0 = (?clock 0 div 1000, Suc 0)" by blast
  from p have b: "parseDate ?dp ?clock (Some ''gestern'') 0 = (?clock 0 div 1000, Suc 0)"
    by blast
  from p two_days_nonblank obtain workouts
    where w: "parseCSV ?dp ?clock csvTwoDays = Inr workouts" by blast
  from parseDate_never_raises [of ?dp ?clock 0 None TypeError "''gestern''" csvTwoDays workouts] v w
  obtain prs where "calculatePRsOverTime workouts = Inr prs" by auto
  with w a b t v two_days_nonblank show ?thesis by auto
qed

section \<open>Properties of the personal-record detector\<close>

lemma isoDate_day0: "isoDate 0 = Inr ''1970-01-01''"
  by code_simp

lemma isoDate_day1: "isoDate 86400000 = Inr ''1970-01-02''"
  by code_simp

lemma epley_100_10: "epley (Fin 100) (Fin 10) = Fin (2345624805922133 / 17592186044416)"
  by code_simp

lemma epley_110_5: "epley (Fin 110) (Fin 5) = Fin (4515327751400107 / 35184372088832)"
  by code_simp

lemma js_isZero_iff: "js_isZero x \<longleftrightarrow> x = Fin 0"
  by (cases x) simp_all

lemma prSet_weighted:
  "weighted s \<Longrightarrow>
   prSet cur s =
     (\<lparr>max1RM = jsMax (max1RM cur) (epley (orZero (weight_kg s)) (orZero (reps s))),
       maxWeight = jsMax (maxWeight cur) (orZero (weight_kg s)),
       maxReps = jsMax (maxReps cur) (orZero (reps s))\<rparr>,
      (if js_gt (epley (orZero (weight_kg s)) (orZero (reps s))) (max1RM cur) then 1 else 0)
      + (if js_gt (orZero (weight_kg s)) (maxWeight cur) then 1 else 0)
      + (if js_gt (orZero (reps s)) (maxReps cur) then 1 else 0))"
  by (cases cur) (simp add: prSet_def Let_def weighted_def jsMax_def)

lemma prSet_bodyweight:
  "bodyweight s \<Longrightarrow>
   prSet cur s =
     (cur\<lparr>maxReps := jsMax (maxReps cur) (orZero (reps s))\<rparr>,
      (if js_gt (orZero (reps s)) (maxReps cur) then 1 else 0))"
  by (cases cur) (simp add: prSet_def Let_def bodyweight_def jsMax_def)

lemma prSet_other: "\<not> weighted s \<Longrightarrow> \<not> bodyweight s \<Longrightarrow> prSet cur s = (cur, 0)"
  by (auto simp: prSet_def Let_def weighted_def bodyweight_def js_isZero_iff)

lemma prSets_count: "prSets cur ss n = (fst (prSets cur ss 0), n + snd (prSets cur ss 0))"
proof (induction ss arbitrary: cur n)
  case Nil
  then show ?case by simp
next
  case (Cons s ss)
  obtain c k where p: "prSet cur s = (c, k)" by (cases "prSet cur s")
  show ?case
    using Cons.IH [of c "n + k"] Cons.IH [of c k] by (simp add: p)
qed

lemma prSets_append:
  "prSets cur (xs @ ys) n = (case prSets cur xs n of (c, k) \<Rightarrow> prSets c ys k)"
  by (induction xs arbitrary: cur n) (simp_all split: prod.splits)

lemma prSets_snoc:
  "prSets cur (ss @ [s]) n =
     (fst (prSet (fst (prSets cur ss n)) s),
      snd (prSets cur ss n) + snd (prSet (fst (prSets cur ss n)) s))"
  by (simp add: prSets_append split: prod.splits)

lemma prExercises_Cons:
  "prExercises m (e # es) n =
     (case prSets (maximaOf m (toLowerCase (ex_title e))) (sets e) n of
        (c, j) \<Rightarrow> prExercises (m(toLowerCase (ex_title e) \<mapsto> c)) es j)"
  by (simp add: maximaOf_def Let_def)

lemma prExercises_count:
  "prExercises m es n = (fst (prExercises m es 0), n + snd (prExercises m es 0))"
proof (induction es arbitrary: m n)
  case Nil
  then show ?case by simp
next
  case (Cons e es)
  let ?k = "toLowerCase (ex_title e)"
  obtain c j where p: "prSets (maximaOf m ?k) (sets e) 0 = (c, j)"
    by (cases "prSets (maximaOf m ?k) (sets e) 0")
  have pn: "prSets (maximaOf m ?k) (sets e) n = (c, n + j)"
    using prSets_count [of "maximaOf m ?k" "sets e" n] by (simp add: p)
  have sn: "prExercises m (e # es) n = prExercises (m(?k \<mapsto> c)) es (n + j)"
    by (simp only: prExercises_Cons pn prod.case)
  have s0: "prExercises m (e # es) 0 = prExercises (m(?k \<mapsto> c)) es j"
    by (simp only: prExercises_Cons p prod.case)
  have a: "prExercises (m(?k \<mapsto> c)) es (n + j) =
      (fst (prExercises (m(?k \<mapsto> c)) es 0), n + j + snd (prExercises (m(?k \<mapsto> c)) es 0))"
    by (rule Cons.IH)
  have b: "prExercises (m(?k \<mapsto> c)) es j =
      (fst (prExercises (m(?k \<mapsto> c)) es 0), j + snd (prExercises (m(?k \<mapsto> c)) es 0))"
    by (rule Cons.IH)
  show ?case
    unfolding sn s0 by (subst a, subst (1 2) b) simp
qed

lemma prExercises_append:
  "prExercises m (es @ es') n = (case prExercises m es n of (m', n') \<Rightarrow> prExercises m' es' n')"
  by (induction es arbitrary: m n) (simp_all add: Let_def split: prod.splits)

lemma maximaOf_title:
  "maximaOf (fst (prExercises m es n)) k = fst (prSets (maximaOf m k) (setsOfTitle k es) 0)"
proof (induction es arbitrary: m n)
  case Nil
  then show ?case by (simp add: setsOfTitle_def)
next
  case (Cons e es)
  let ?k = "toLowerCase (ex_title e)"
  obtain c j where p: "prSets (maximaOf m ?k) (sets e) n = (c, j)"
    by (cases "prSets (maximaOf m ?k) (sets e) n")
  then have c: "c = fst (prSets (maximaOf m ?k) (sets e) 0)"
    using prSets_count [of "maximaOf m ?k" "sets e" n] by simp
  have step: "prExercises m (e # es) n = prExercises (m(?k \<mapsto> c)) es j"
    by (simp only: prExercises_Cons p prod.case)
  have upd: "maximaOf (m(?k \<mapsto> c)) k = (if k = ?k then c else maximaOf m k)"
    by (simp add: maximaOf_def)
  have ih: "maximaOf (fst (prExercises m (e # es) n)) k =
      fst (prSets (if k = ?k then c else maximaOf m k) (setsOfTitle k es) 0)"
    unfolding step by (simp only: Cons.IH upd)
  show ?case
  proof (cases "k = ?k")
    case True
    obtain c0 j0 where p0: "prSets (maximaOf m ?k) (sets e) 0 = (c0, j0)"
      by (cases "prSets (maximaOf m ?k) (sets e) 0")
    with c have cc: "c0 = c" by simp
    have "setsOfTitle ?k (e # es) = sets e @ setsOfTitle ?k es"
      by (simp add: setsOfTitle_def)
    then have "fst (prSets (maximaOf m ?k) (setsOfTitle ?k (e # es)) 0) =
          fst (prSets c (setsOfTitle ?k es) j0)"
      by (simp add: prSets_append p0 cc)
    also have "\<dots> = fst (prSets c (setsOfTitle ?k es) 0)"
      using prSets_count [of c "setsOfTitle ?k es" j0] by simp
    finally have eq: "fst (prSets (maximaOf m ?k) (setsOfTitle ?k (e # es)) 0) =
          fst (prSets c (setsOfTitle ?k es) 0)" .
    show ?thesis
      by (subst ih) (simp only: True eq if_True simp_thms)
  next
    case False
    then have "setsOfTitle k (e # es) = setsOfTitle k es"
      by (auto simp: setsOfTitle_def)
    with False show ?thesis
      by (subst ih) (simp only: if_False)
  qed
qed

lemma prExercises_snoc_count:
  "snd (prExercises m (es @ [e]) n) =
     snd (prExercises m es n)
     + snd (prSets (maximaOf (fst (prExercises m es n)) (toLowerCase (ex_title e))) (sets e) 0)"
proof -
  obtain m' n' where p: "prExercises m es n = (m', n')" by (cases "prExercises m es n")
  let ?k = "toLowerCase (ex_title e)"
  obtain c j where q: "prSets (maximaOf m' ?k) (sets e) 0 = (c, j)"
    by (cases "prSets (maximaOf m' ?k) (sets e) 0")
  have qn: "prSets (maximaOf m' ?k) (sets e) n' = (c, n' + j)"
    using prSets_count [of "maximaOf m' ?k" "sets e" n'] by (simp add: q)
  have "prExercises m (es @ [e]) n = prExercises m' [e] n'"
    by (simp add: prExercises_append p)
  also have "\<dots> = (m'(?k \<mapsto> c), n' + j)"
    by (simp only: prExercises_Cons qn prod.case prExercises.simps)
  finally show ?thesis by (simp add: p q)
qed

lemma isoDate_nonempty: "isoDate ms = Inr d \<Longrightarrow> d \<noteq> []"
  by (auto simp: isoDate_def split: if_splits prod.splits)

lemma sum_addCount: "sum_list (map snd (addCount acc k n)) = sum_list (map snd acc) + n"
  by (induction acc) auto

lemma prWorkouts_sum:
  "prWorkouts m acc ws = Inr r \<Longrightarrow>
   sum_list (map snd r) =
     sum_list (map snd acc) + snd (prExercises m (concat (map exercises ws)) 0)"
proof (induction ws arbitrary: m acc)
  case Nil
  then show ?case by simp
next
  case (Cons w ws)
  from Cons.prems obtain d where d: "isoDate (start_time w * 1000) = Inr d"
    by (cases "isoDate (start_time w * 1000)") simp_all
  obtain m' k where p: "prExercises m (exercises w) 0 = (m', k)"
    by (cases "prExercises m (exercises w) 0")
  let ?acc = "if d \<noteq> [] \<and> 0 < k then addCount acc d k else acc"
  from Cons.prems have "prWorkouts m' ?acc ws = Inr r" by (simp add: d p)
  then have "sum_list (map snd r) =
     sum_list (map snd ?acc) + snd (prExercises m' (concat (map exercises ws)) 0)"
    by (rule Cons.IH)
  moreover have "sum_list (map snd ?acc) = sum_list (map snd acc) + k"
    using isoDate_nonempty [OF d] by (simp add: sum_addCount)
  moreover have "snd (prExercises m (concat (map exercises (w # ws))) 0) =
      k + snd (prExercises m' (concat (map exercises ws)) 0)"
    using prExercises_count [of m' "concat (map exercises ws)" k]
    by (simp add: prExercises_append p)
  ultimately show ?case by simp
qed


lemma prSets_maxima:
  "max1RM (fst (prSets cur ss n)) =
     foldl jsMax (max1RM cur)
       (map (\<lambda>s. epley (orZero (weight_kg s)) (orZero (reps s))) (filter weighted ss))
   \<and> maxWeight (fst (prSets cur ss n)) =
     foldl jsMax (maxWeight cur) (map (\<lambda>s. orZero (weight_kg s)) (filter weighted ss))
   \<and> maxReps (fst (prSets cur ss n)) =
     foldl jsMax (maxReps cur)
       (map (\<lambda>s. orZero (reps s)) (filter (\<lambda>s. weighted s \<or> bodyweight s) ss))"
proof (induction ss arbitrary: cur n)
  case Nil
  then show ?case by simp
next
  case (Cons s ss)
  consider (w) "weighted s" | (b) "\<not> weighted s" "bodyweight s"
    | (o) "\<not> weighted s" "\<not> bodyweight s" by blast
  then show ?case
  proof cases
    case w
    then show ?thesis by (simp add: prSet_weighted Cons.IH)
  next
    case b
    then show ?thesis by (simp add: prSet_bodyweight Cons.IH)
  next
    case o
    then show ?thesis by (simp add: prSet_other Cons.IH)
  qed
qed

lemma prs_over_time_sum:
  assumes "calculatePRsOverTime workouts = Inr r"
  shows "sum_list (map snd r) =
         snd (prExercises Map.empty (concat (map exercises (sort_key start_time workouts))) 0)"
proof -
  from assms obtain r0 where p: "prWorkouts Map.empty [] (sort_key start_time workouts) = Inr r0"
    and r: "r = sort_key fst r0"
    by (auto simp: calculatePRsOverTime_def split: sum.splits)
  have "sum_list (map snd r) = sum_list (map snd r0)"
    unfolding r by (rule sum_sort_key)
  with prWorkouts_sum [OF p] show ?thesis by simp
qed

text \<open>
  C1. The record detector of \<open>calculatePRsOverTime\<close>, with \<open>weight = set.weight_kg || 0\<close>
  and \<open>reps = set.reps || 0\<close> computed in binary64 arithmetic.

  For one set: when weight and reps are both positive, each of the three maxima (Epley
  estimate \<open>weight * (1 + reps / 30)\<close>, weight, reps) that the set strictly exceeds is
  replaced by the set's value and counts one PR, the others stay; when reps is positive
  and weight is zero only the reps maximum is compared; any other set changes nothing.

  For the loops: every set of an exercise is judged against the maxima left by the sets
  before it and its count is added; the maxima are the running maxima of the values of
  the sets that qualify; the maxima held under a lower-cased title after a list of
  exercises come from exactly the sets of the exercises of that title, in order, and an
  exercise's sets are counted against them; the counts that \<open>calculatePRsOverTime\<close>
  reports add up to the PR events of one pass over all exercises in chronological order.

  The example: a set of 100 kg for 10 reps gives the estimate 133.33333333333331 and sets
  all three records; a following set of 110 kg for 5 reps gives 128.33333333333334, no
  1RM record, and counts exactly one PR, the weight. \<open>calculatePRsOverTime\<close> reports 3
  PRs on the first day and 1 on the second, also when the workouts are given newest
  first.
\<close>

theorem pr_three_metrics:
  "(weighted s \<longrightarrow>
      prSet cur s =
        (\<lparr>max1RM = jsMax (max1RM cur) (epley (orZero (weight_kg s)) (orZero (reps s))),
          maxWeight = jsMax (maxWeight cur) (orZero (weight_kg s)),
          maxReps = jsMax (maxReps cur) (orZero (reps s))\<rparr>,
         (if js_gt (epley (orZero (weight_kg s)) (orZero (reps s))) (max1RM cur) then 1 else 0)
         + (if js_gt (orZero (weight_kg s)) (maxWeight cur) then 1 else 0)
         + (if js_gt (orZero (reps s)) (maxReps cur) then 1 else 0)))
   \<and> (bodyweight s \<longrightarrow>
      prSet cur s =
        (cur\<lparr>maxReps := jsMax (maxReps cur) (orZero (reps s))\<rparr>,
         (if js_gt (orZero (reps s)) (maxReps cur) then 1 else 0)))
   \<and> (\<not> weighted s \<and> \<not> bodyweight s \<longrightarrow> prSet cur s = (cur, 0))
   \<and> prSets cur (ss @ [s]) n =
       (fst (prSet (fst (prSets cur ss n)) s),
        snd (prSets cur ss n) + snd (prSet (fst (prSets cur ss n)) s))
   \<and> max1RM (fst (prSets cur ss n)) =
       foldl jsMax (max1RM cur)
         (map (\<lambda>s. epley (orZero (weight_kg s)) (orZero (reps s))) (filter weighted ss))
   \<and> maxWeight (fst (prSets cur ss n)) =
       foldl jsMax (maxWeight cur) (map (\<lambda>s. orZero (weight_kg s)) (filter weighted ss))
   \<and> maxReps (fst (prSets cur ss n)) =
       foldl jsMax (maxReps cur)
         (map (\<lambda>s. orZero (reps s)) (filter (\<lambda>s. weighted s \<or> bodyweight s) ss))
   \<and> maximaOf (fst (prExercises m es n)) k =
       fst (prSets (maximaOf m k) (setsOfTitle k es) 0)
   \<and> snd (prExercises m (es @ [e]) n) =
       snd (prExercises m es n)
       + snd (prSets (maximaOf (fst (prExercises m es n)) (toLowerCase (ex_title e)))
                (sets e) 0)
   \<and> (calculatePRsOverTime workouts = Inr r \<longrightarrow>
        sum_list (map snd r) =
          snd (prExercises Map.empty
                 (concat (map exercises (sort_key start_time workouts))) 0))
   \<and> epley (Fin 100) (Fin 10) = Fin (2345624805922133 / 17592186044416)
   \<and> epley (Fin 110) (Fin 5) = Fin (4515327751400107 / 35184372088832)
   \<and> \<not> js_gt (epley (Fin 110) (Fin 5)) (epley (Fin 100) (Fin 10))
   \<and> prSet zeroPRs (s1\<lparr>weight_kg := Some (Fin 100), reps := Some (Fin 10)\<rparr>) =
        (\<lparr>max1RM = Fin (2345624805922133 / 17592186044416), maxWeight = Fin 100,
          maxReps = Fin 10\<rparr>, 3)
   \<and> prSet \<lparr>max1RM = Fin (2345624805922133 / 17592186044416), maxWeight = Fin 100,
              maxReps = Fin 10\<rparr>
        (s2\<lparr>weight_kg := Some (Fin 110), reps := Some (Fin 5)\<rparr>) =
        (\<lparr>max1RM = Fin (2345624805922133 / 17592186044416), maxWeight = Fin 110,
          maxReps = Fin 10\<rparr>, 1)
   \<and> calculatePRsOverTime
        [w2\<lparr>start_time := 86400, exercises :=
            [e2\<lparr>ex_title := ''Bench Press'', sets :=
               [s2\<lparr>weight_kg := Some (Fin 110), reps := Some (Fin 5)\<rparr>]\<rparr>]\<rparr>,
         w1\<lparr>start_time := 0, exercises :=
            [e1\<lparr>ex_title := ''Bench Press'', sets :=
               [s1\<lparr>weight_kg := Some (Fin 100), reps := Some (Fin 10)\<rparr>]\<rparr>]\<rparr>] =
        Inr [(''1970-01-01'', 3), (''1970-01-02'', 1)]"
proof (intro conjI impI)
  show "prSet cur s =
        (\<lparr>max1RM = jsMax (max1RM cur) (epley (orZero (weight_kg s)) (orZero (reps s))),
          maxWeight = jsMax (maxWeight cur) (orZero (weight_kg s)),
          maxReps = jsMax (maxReps cur) (orZero (reps s))\<rparr>,
         (if js_gt (epley (orZero (weight_kg s)) (orZero (reps s))) (max1RM cur) then 1 else 0)
         + (if js_gt (orZero (weight_kg s)) (maxWeight cur) then 1 else 0)
         + (if js_gt (orZero (reps s)) (maxReps cur) then 1 else 0))"
    if "weighted s"
    using that by (rule prSet_weighted)
  show "prSet cur s =
        (cur\<lparr>maxReps := jsMax (maxReps cur) (orZero (reps s))\<rparr>,
         (if js_gt (orZero (reps s)) (maxReps cur) then 1 else 0))"
    if "bodyweight s"
    using that by (rule prSet_bodyweight)
  show "prSet cur s = (cur, 0)" if "\<not> weighted s \<and> \<not> bodyweight s"
    using that by (simp add: prSet_other)
  show "prSets cur (ss @ [s]) n =
       (fst (prSet (fst (prSets cur ss n)) s),
        snd (prSets cur ss n) + snd (prSet (fst (prSets cur ss n)) s))"
    by (rule prSets_snoc)
  show "max1RM (fst (prSets cur ss n)) =
       foldl jsMax (max1RM cur)
         (map (\<lambda>s. epley (orZero (weight_kg s)) (orZero (reps s))) (filter weighted ss))"
    "maxWeight (fst (prSets cur ss n)) =
       foldl jsMax (maxWeight cur) (map (\<lambda>s. orZero (weight_kg s)) (filter weighted ss))"
    "maxReps (fst (prSets cur ss n)) =
       foldl jsMax (maxReps cur)
         (map (\<lambda>s. orZero (reps s)) (filter (\<lambda>s. weighted s \<or> bodyweight s) ss))"
    using prSets_maxima [of cur ss n] by blast+
  show "maximaOf (fst (prExercises m es n)) k =
       fst (prSets (maximaOf m k) (setsOfTitle k es) 0)"
    by (rule maximaOf_title)
  show "snd (prExercises m (es @ [e]) n) =
       snd (prExercises m es n)
       + snd (prSets (maximaOf (fst (prExercises m es n)) (toLowerCase (ex_title e)))
                (sets e) 0)"
    by (rule prExercises_snoc_count)
  show "sum_list (map snd r) =
          snd (prExercises Map.empty
                 (concat (map exercises (sort_key start_time workouts))) 0)"
    if "calculatePRsOverTime workouts = Inr r"
    using that by (rule prs_over_time_sum)
  show "epley (Fin 100) (Fin 10) = Fin (2345624805922133 / 17592186044416)"
    by (rule epley_100_10)
  show "epley (Fin 110) (Fin 5) = Fin (4515327751400107 / 35184372088832)"
    by (rule epley_110_5)
  show "\<not> js_gt (epley (Fin 110) (Fin 5)) (epley (Fin 100) (Fin 10))"
    by (simp add: epley_100_10 epley_110_5)
  show "prSet zeroPRs (s1\<lparr>weight_kg := Some (Fin 100), reps := Some (Fin 10)\<rparr>) =
        (\<lparr>max1RM = Fin (2345624805922133 / 17592186044416), maxWeight = Fin 100,
          maxReps = Fin 10\<rparr>, 3)"
    by (simp add: prSet_def zeroPRs_def epley_100_10)
  show "prSet \<lparr>max1RM = Fin (2345624805922133 / 17592186044416), maxWeight = Fin 100,
              maxReps = Fin 10\<rparr>
        (s2\<lparr>weight_kg := Some (Fin 110), reps := Some (Fin 5)\<rparr>) =
        (\<lparr>max1RM = Fin (2345624805922133 / 17592186044416), maxWeight = Fin 110,
          maxReps = Fin 10\<rparr>, 1)"
    by (simp add: prSet_def epley_110_5)
  show "calculatePRsOverTime
        [w2\<lparr>start_time := 86400, exercises :=
            [e2\<lparr>ex_title := ''Bench Press'', sets :=
               [s2\<lparr>weight_kg := Some (Fin 110), reps := Some (Fin 5)\<rparr>]\<rparr>]\<rparr>,
         w1\<lparr>start_time := 0, exercises :=
            [e1\<lparr>ex_title := ''Bench Press'', sets :=
               [s1\<lparr>weight_kg := Some (Fin 100), reps := Some (Fin 10)\<rparr>]\<rparr>]\<rparr>] =
        Inr [(''1970-01-01'', 3), (''1970-01-02'', 1)]"
    by (simp add: calculatePRsOverTime_def isoDate_day0 isoDate_day1 prSet_def zeroPRs_def
        epley_100_10 epley_110_5)
qed

lemma interleaved_titles:
  "calculatePRsOverTime
     [sampleWorkout 86400
        [sampleExercise ''Bench Press'' [sampleSet (Some (Fin 110)) (Some (Fin 5))],
         sampleExercise ''Squat'' [sampleSet (Some (Fin 80)) (Some (Fin 5))]],
      sampleWorkout 0
        [sampleExercise ''Bench Press'' [sampleSet (Some (Fin 100)) (Some (Fin 10))],
         sampleExercise ''Squat'' [sampleSet (Some (Fin 90)) (Some (Fin 5))]]] =
   Inr [(''1970-01-01'', 6), (''1970-01-02'', 1)]"
  by code_simp

theorem pr_three_metrics_witness:
  "weighted (sampleSet (Some (Fin 110)) (Some (Fin 5)))
   \<and> prSet \<lparr>max1RM = Fin (2345624805922133 / 17592186044416), maxWeight = Fin 100,
              maxReps = Fin 10\<rparr> (sampleSet (Some (Fin 110)) (Some (Fin 5))) =
        (\<lparr>max1RM = Fin (2345624805922133 / 17592186044416), maxWeight = Fin 110,
          maxReps = Fin 10\<rparr>, 1)
   \<and> bodyweight (sampleSet None (Some (Fin 12)))
   \<and> prSet \<lparr>max1RM = Fin (2345624805922133 / 17592186044416), maxWeight = Fin 100,
              maxReps = Fin 10\<rparr> (sampleSet None (Some (Fin 12))) =
        (\<lparr>max1RM = Fin (2345624805922133 / 17592186044416), maxWeight = Fin 100,
          maxReps = Fin 12\<rparr>, 1)
   \<and> \<not> weighted (sampleSet (Some (Fin 50)) None)
   \<and> \<not> bodyweight (sampleSet (Some (Fin 50)) None)
   \<and> prSet \<lparr>max1RM = Fin (2345624805922133 / 17592186044416), maxWeight = Fin 100,
              maxReps = Fin 10\<rparr> (sampleSet (Some (Fin 50)) None) =
        (\<lparr>max1RM = Fin (2345624805922133 / 17592186044416), maxWeight = Fin 100,
          maxReps = Fin 10\<rparr>, 0)
   \<and> calculatePRsOverTime
        [sampleWorkout 86400
           [sampleExercise ''Bench Press'' [sampleSet (Some (Fin 110)) (Some (Fin 5))],
            sampleExercise ''Squat'' [sampleSet (Some (Fin 80)) (Some (Fin 5))]],
         sampleWorkout 0
           [sampleExercise ''Bench Press'' [sampleSet (Some (Fin 100)) (Some (Fin 10))],
            sampleExercise ''Squat'' [sampleSet (Some (Fin 90)) (Some (Fin 5))]]] =
       Inr [(''1970-01-01'', 6), (''1970-01-02'', 1)]
   \<and> snd (prExercises Map.empty
          (concat (map exercises (sort_key start_time
             [sampleWorkout 86400
                [sampleExercise ''Bench Press'' [sampleSet (Some (Fin 110)) (Some (Fin 5))],
                 sampleExercise ''Squat'' [sampleSet (Some (Fin 80)) (Some (Fin 5))]],
              sampleWorkout 0
                [sampleExercise ''Bench Press'' [sampleSet (Some (Fin 100)) (Some (Fin 10))],
                 sampleExercise ''Squat'' [sampleSet (Some (Fin 90)) (Some (Fin 5))]]]))) 0) = 7"
proof -
  let ?cur = "\<lparr>max1RM = Fin (2345624805922133 / 17592186044416), maxWeight = Fin 100,
                maxReps = Fin 10\<rparr>"
  let ?a = "sampleSet (Some (Fin 110)) (Some (Fin 5))"
  let ?b = "sampleSet None (Some (Fin 12))"
  let ?c = "sampleSet (Some (Fin 50)) None"
  let ?W = "[sampleWorkout 86400
                [sampleExercise ''Bench Press'' [sampleSet (Some (Fin 110)) (Some (Fin 5))],
                 sampleExercise ''Squat'' [sampleSet (Some (Fin 80)) (Some (Fin 5))]],
              sampleWorkout 0
                [sampleExercise ''Bench Press'' [sampleSet (Some (Fin 100)) (Some (Fin 10))],
                 sampleExercise ''Squat'' [sampleSet (Some (Fin 90)) (Some (Fin 5))]]]"
  have ha: "weighted ?a" by (simp add: weighted_def sampleSet_def)
  have hb: "bodyweight ?b" by (simp add: bodyweight_def sampleSet_def)
  have hc: "\<not> weighted ?c" "\<not> bodyweight ?c"
    by (simp_all add: weighted_def bodyweight_def sampleSet_def)
  note hw = interleaved_titles
  from pr_three_metrics [where s = ?a and cur = ?cur] ha
  have a: "prSet ?cur ?a =
      (\<lparr>max1RM = jsMax (max1RM ?cur) (epley (orZero (weight_kg ?a)) (orZero (reps ?a))),
        maxWeight = jsMax (maxWeight ?cur) (orZero (weight_kg ?a)),
        maxReps = jsMax (maxReps ?cur) (orZero (reps ?a))\<rparr>,
       (if js_gt (epley (orZero (weight_kg ?a)) (orZero (reps ?a))) (max1RM ?cur) then 1 else 0)
       + (if js_gt (orZero (weight_kg ?a)) (maxWeight ?cur) then 1 else 0)
       + (if js_gt (orZero (reps ?a)) (maxReps ?cur) then 1 else 0))"
    by blast
  from pr_three_metrics [where s = ?b and cur = ?cur] hb
  have b: "prSet ?cur ?b =
      (?cur\<lparr>maxReps := jsMax (maxReps ?cur) (orZero (reps ?b))\<rparr>,
       (if js_gt (orZero (reps ?b)) (maxReps ?cur) then 1 else 0))"
    by blast
  from pr_three_metrics [where s = ?c and cur = ?cur] hc
  have c: "prSet ?cur ?c = (?cur, 0)"
    by blast
  from pr_three_metrics [where workouts = ?W and r = "[(''1970-01-01'', 6), (''1970-01-02'', 1)]"] hw
  have w: "sum_list (map snd [(''1970-01-01'', 6 :: nat), (''1970-01-02'', 1)]) =
      snd (prExercises Map.empty (concat (map exercises (sort_key start_time ?W))) 0)"
    by blast
  have a': "prSet ?cur ?a =
      (\<lparr>max1RM = Fin (2345624805922133 / 17592186044416), maxWeight = Fin 110,
        maxReps = Fin 10\<rparr>, 1)"
    unfolding a by (simp add: sampleSet_def jsMax_def epley_110_5)
  have b': "prSet ?cur ?b =
      (\<lparr>max1RM = Fin (2345624805922133 / 17592186044416), maxWeight = Fin 100,
        maxReps = Fin 12\<rparr>, 1)"
    unfolding b by (simp add: sampleSet_def jsMax_def)
  have w': "snd (prExercises Map.empty (concat (map exercises (sort_key start_time ?W))) 0) = 7"
    unfolding w [symmetric] by simp
  from ha a' hb b' hc c hw w' show ?thesis by blast
qed

text \<open>
  Binary rounding is visible in the detector: the estimates of 20 kg for 10 reps and of
  25 kg for 2 reps are both 80/3 in exact arithmetic, but the second is the greater
  binary64 value (26.666666666666668 against 26.666666666666664) and counts as a record.
\<close>

lemma epley_rounding_counts:
  "js_gt (epley (Fin 25) (Fin 2)) (epley (Fin 20) (Fin 10))
   \<and> epley (Fin 20) (Fin 10) = Fin (3752999689475413 / 140737488355328)
   \<and> epley (Fin 25) (Fin 2) = Fin (7505999378950827 / 281474976710656)"
  by code_simp

section \<open>The total volume at an infinite weight\<close>

lemma infinite_cell:
  "weight_kg (buildSet [''weight_kg'' \<mapsto> ''Infinity'', ''reps'' \<mapsto> ''''] 1 0) = Some PInf"
  "reps (buildSet [''weight_kg'' \<mapsto> ''Infinity'', ''reps'' \<mapsto> ''''] 1 0) = None"
  by (simp_all add: buildSet_def numField_def strTruthy_def tmpl_def parseFloat_def
      trimStart_def isWhite_def unsignedDecimal_def)

lemma infinite_parse:
  "map_sum id (map (\<lambda>w. (estimated_volume_kg w, map (\<lambda>s. (weight_kg s, reps s)) (allSets [w]))))
     (parseCSV sampleDateParse sampleClock csvInfiniteWeight) =
   Inr [(Some (Fin 0), [(Some PInf, None)])]"
  "map_sum id calculateTotalVolume (parseCSV sampleDateParse sampleClock csvInfiniteWeight) = Inr NaN"
  "map_sum id totalVolumeSpec (parseCSV sampleDateParse sampleClock csvInfiniteWeight) = Inr (Fin 0)"
  by code_simp+

text \<open>
  C5. The claim asks for the sum of \<open>weight_kg * reps\<close> over the sets in which both are
  present, the others left out. \<open>calculateTotalVolume\<close> instead multiplies with zero for an
  absent value. For a set whose weight is \<open>Infinity\<close> (the cell "Infinity" of a CSV row)
  and whose reps are absent that is \<open>Infinity * 0\<close>, so the total is \<open>NaN\<close>, where the sum
  over the sets with both values present is 0; the parser's own running volume
  (\<open>if (weight && reps)\<close>) leaves that set out and stays 0.
\<close>

theorem total_volume_infinite_weight:
  "weight_kg (buildSet [''weight_kg'' \<mapsto> ''Infinity'', ''reps'' \<mapsto> ''''] 1 0) = Some PInf
   \<and> reps (buildSet [''weight_kg'' \<mapsto> ''Infinity'', ''reps'' \<mapsto> ''''] 1 0) = None
   \<and> setVolume (sampleSet (Some PInf) None) = NaN
   \<and> calculateTotalVolume
        [sampleWorkout 0 [sampleExercise ''Squat'' [sampleSet (Some PInf) None]]] = NaN
   \<and> totalVolumeSpec
        [sampleWorkout 0 [sampleExercise ''Squat'' [sampleSet (Some PInf) None]]] = Fin 0
   \<and> map_sum id
        (map (\<lambda>w. (estimated_volume_kg w, map (\<lambda>s. (weight_kg s, reps s)) (allSets [w]))))
        (parseCSV sampleDateParse sampleClock csvInfiniteWeight) =
      Inr [(Some (Fin 0), [(Some PInf, None)])]
   \<and> map_sum id calculateTotalVolume (parseCSV sampleDateParse sampleClock csvInfiniteWeight) =
      Inr NaN
   \<and> map_sum id totalVolumeSpec (parseCSV sampleDateParse sampleClock csvInfiniteWeight) =
      Inr (Fin 0)"
proof -
  have "setVolume (sampleSet (Some PInf) None) = NaN"
    by (simp add: setVolume_def sampleSet_def infTimes_def)
  moreover have "calculateTotalVolume
        [sampleWorkout 0 [sampleExercise ''Squat'' [sampleSet (Some PInf) None]]] = NaN"
    by (simp add: calculateTotalVolume_def reduceSum_def workoutVolume_def exerciseVolume_def
        setVolume_def sampleWorkout_def sampleExercise_def sampleSet_def infTimes_def)
  moreover have "totalVolumeSpec
        [sampleWorkout 0 [sampleExercise ''Squat'' [sampleSet (Some PInf) None]]] = Fin 0"
    by code_simp
  ultimately show ?thesis
    using infinite_cell infinite_parse by blast
qed

section \<open>Properties of the file validation\<close>

subsection \<open>Sample evaluations\<close>

lemma two_days_outline:
  "map_sum id (map (\<lambda>w. (title w, start_time w, setCount w)))
     (parseCSV sampleDateParse sampleClock csvTwoDays) =
   Inr [(''Push'', 1735776000, 1), (''Legs'', 1735689600, 2)]"
  by code_simp

lemma two_days_keys:
  "map workoutKey (csvRows csvTwoDays) =
     [''Legs_1 Jan 2025'', ''Push_2 Jan 2025'', ''Legs_1 Jan 2025'']"
  by code_simp










section \<open>Properties of the numeric fields\<close>

lemma includesStr_sublist: "includesStr s p \<longleftrightarrow> sublist p s"
  by (induction s) (simp_all add: sublist_Cons_right)

lemma no_digit_takeWhile: "\<forall>c\<in>set s. \<not> isDigit c \<Longrightarrow> takeWhile isDigit s = []"
  by (cases s) simp_all

lemma no_infinity_prefix:
  assumes "\<not> includesStr s ''Infinity''" "suffix t s"
  shows "\<not> prefix ''Infinity'' t"
proof
  assume "prefix ''Infinity'' t"
  then have "sublist ''Infinity'' t" by (rule prefix_imp_sublist)
  with assms(2) have "sublist ''Infinity'' s"
    by (meson sublist_order.order_trans suffix_imp_sublist)
  with assms(1) show False by (simp add: includesStr_sublist)
qed

lemma unsignedDecimal_nan:
  assumes "\<forall>c\<in>set t. \<not> isDigit c" "\<not> prefix ''Infinity'' t"
  shows "unsignedDecimal t = NaN"
proof -
  have ip: "takeWhile isDigit t = []" using assms(1) by (rule no_digit_takeWhile)
  then have r1: "dropWhile isDigit t = t" by (metis takeWhile_dropWhile_id append_Nil)
  have fp: "(case t of [] \<Rightarrow> [] | c # u \<Rightarrow> if c = CHR ''.'' then takeWhile isDigit u else []) = []"
    using assms(1) by (cases t) (simp_all add: no_digit_takeWhile)
  show ?thesis
    using assms(2) by (simp add: unsignedDecimal_def ip r1 fp Let_def)
qed

lemma unsignedInt_nan:
  assumes "\<forall>c\<in>set t. \<not> isDigit c"
  shows "unsignedInt t = NaN"
proof -
  have z: "\<not> isDigit c \<Longrightarrow> c \<noteq> CHR ''0''" for c by (auto simp: isDigit_def)
  have "\<not> prefix ''0x'' t" "\<not> prefix ''0X'' t"
    using assms z by (cases t; auto)+
  then show ?thesis
    using assms by (simp add: unsignedInt_def no_digit_takeWhile)
qed

lemma non_numeric_nan:
  assumes "\<forall>c\<in>set s. \<not> isDigit c" "\<not> includesStr s ''Infinity''"
  shows "parseFloat s = NaN" "parseInt s = NaN"
proof -
  let ?u = "trimStart s"
  have su: "suffix ?u s" unfolding trimStart_def by (rule suffix_dropWhile)
  then have du: "\<forall>c\<in>set ?u. \<not> isDigit c" using assms(1) by (meson set_mono_suffix subsetD)
  have iu: "\<not> prefix ''Infinity'' ?u" using assms(2) su by (rule no_infinity_prefix)
  show "parseFloat s = NaN"
  proof (cases ?u)
    case Nil
    then show ?thesis by (simp add: parseFloat_def)
  next
    case (Cons c t)
    then have "suffix t s" using su by (metis suffix_ConsD)
    then have it: "\<not> prefix ''Infinity'' t" using assms(2) by (intro no_infinity_prefix)
    have dt: "\<forall>c\<in>set t. \<not> isDigit c" using du Cons by simp
    show ?thesis
      using unsignedDecimal_nan [OF dt it] unsignedDecimal_nan [OF du iu] Cons
      by (simp add: parseFloat_def)
  qed
  show "parseInt s = NaN"
  proof (cases ?u)
    case Nil
    then show ?thesis by (simp add: parseInt_def)
  next
    case (Cons c t)
    have dt: "\<forall>c\<in>set t. \<not> isDigit c" using du Cons by simp
    show ?thesis
      using unsignedInt_nan [OF dt] unsignedInt_nan [OF du] Cons
      by (simp add: parseInt_def)
  qed
qed

lemma non_numeric_parse:
  "map_sum id (map (\<lambda>w. map (\<lambda>s. (weight_kg s, reps s)) (allSets [w])))
     (parseCSV sampleDateParse sampleClock csvNonNumeric) = Inr [[(Some NaN, Some NaN)]]"
  by code_simp

lemma abc_cells:
  "weight_kg (buildSet [''weight_kg'' \<mapsto> ''abc'', ''reps'' \<mapsto> ''n/a''] 1 0) = Some NaN"
  "reps (buildSet [''weight_kg'' \<mapsto> ''abc'', ''reps'' \<mapsto> ''n/a''] 1 0) = Some NaN"
  by code_simp+

text \<open>
  C4, as stated, fails for a non-numeric cell: the cell "abc" under \<open>weight_kg\<close> and the
  cell "n/a" under \<open>reps\<close> give \<open>NaN\<close>, a number, not the absent value \<open>null\<close>; so does the
  parse of a CSV row with these cells.
\<close>

theorem non_numeric_cell_counterexample:
  "weight_kg (buildSet [''weight_kg'' \<mapsto> ''abc'', ''reps'' \<mapsto> ''n/a''] 1 0) = Some NaN
   \<and> weight_kg (buildSet [''weight_kg'' \<mapsto> ''abc'', ''reps'' \<mapsto> ''n/a''] 1 0) \<noteq> None
   \<and> reps (buildSet [''weight_kg'' \<mapsto> ''abc'', ''reps'' \<mapsto> ''n/a''] 1 0) = Some NaN
   \<and> reps (buildSet [''weight_kg'' \<mapsto> ''abc'', ''reps'' \<mapsto> ''n/a''] 1 0) \<noteq> None
   \<and> map_sum id (map (\<lambda>w. map (\<lambda>s. (weight_kg s, reps s)) (allSets [w])))
        (parseCSV sampleDateParse sampleClock csvNonNumeric) = Inr [[(Some NaN, Some NaN)]]"
proof -
  have w: "weight_kg (buildSet [''weight_kg'' \<mapsto> ''abc'', ''reps'' \<mapsto> ''n/a''] 1 0) \<noteq> None"
    unfolding abc_cells(1) by simp
  have r: "reps (buildSet [''weight_kg'' \<mapsto> ''abc'', ''reps'' \<mapsto> ''n/a''] 1 0) \<noteq> None"
    unfolding abc_cells(2) by simp
  from abc_cells(1) w abc_cells(2) r non_numeric_parse show ?thesis by (intro conjI)
qed

text \<open>
  C4, amended. Each of the five numeric fields of a set is read from its cell by
  \<open>cell ? parse(cell) : null\<close>, with \<open>parseFloat\<close> for \<open>weight_kg\<close>, \<open>distance_km\<close> and \<open>rpe\<close>
  and \<open>parseInt\<close> for \<open>reps\<close> and \<open>duration_seconds\<close>: a missing or empty cell gives \<open>null\<close>,
  any other cell gives the parsed number, and a cell that contains no digit and does not
  contain the text \<open>Infinity\<close> gives \<open>NaN\<close>, which is neither \<open>null\<close> nor zero. Building the
  set cannot raise.
\<close>

theorem numeric_fields_tolerant:
  "weight_kg (buildSet row i now) = numField parseFloat (row ''weight_kg'')
   \<and> reps (buildSet row i now) = numField parseInt (row ''reps'')
   \<and> distance_km (buildSet row i now) = numField parseFloat (row ''distance_km'')
   \<and> duration_seconds (buildSet row i now) = numField parseInt (row ''duration_seconds'')
   \<and> rpe (buildSet row i now) = numField parseFloat (row ''rpe'')
   \<and> numField parse None = None
   \<and> numField parse (Some []) = None
   \<and> (s \<noteq> [] \<longrightarrow> numField parse (Some s) = Some (parse s))
   \<and> (s \<noteq> [] \<and> (\<forall>c\<in>set s. \<not> isDigit c) \<and> \<not> includesStr s ''Infinity'' \<longrightarrow>
        numField parseFloat (Some s) = Some NaN \<and> numField parseInt (Some s) = Some NaN)"
  by (simp add: buildSet_def numField_def strTruthy_def tmpl_def non_numeric_nan)

lemma abc_plain: "(\<forall>c\<in>set ''abc''. \<not> isDigit c) \<and> \<not> includesStr ''abc'' ''Infinity''"
  by code_simp

theorem numeric_fields_tolerant_witness:
  "numField parseFloat (Some ''abc'') = Some (parseFloat ''abc'')
   \<and> numField parseFloat (Some ''abc'') = Some NaN
   \<and> numField parseInt (Some ''abc'') = Some NaN
   \<and> weight_kg (buildSet [''weight_kg'' \<mapsto> ''abc'', ''reps'' \<mapsto> ''''] 1 0) = Some NaN
   \<and> reps (buildSet [''weight_kg'' \<mapsto> ''abc'', ''reps'' \<mapsto> ''''] 1 0) = None"
proof -
  let ?row = "[''weight_kg'' \<mapsto> ''abc'', ''reps'' \<mapsto> '''']"
  note t = numeric_fields_tolerant [of ?row 1 0 parseFloat "''abc''"]
  have ne: "''abc'' \<noteq> []" by simp
  from t ne have a: "numField parseFloat (Some ''abc'') = Some (parseFloat ''abc'')" by blast
  from t ne abc_plain have b: "numField parseFloat (Some ''abc'') = Some NaN"
    and c: "numField parseInt (Some ''abc'') = Some NaN" by blast+
  from t have d: "weight_kg (buildSet ?row 1 0) = numField parseFloat (?row ''weight_kg'')"
    and e: "reps (buildSet ?row 1 0) = numField parseInt (?row ''reps'')" by blast+
  from numeric_fields_tolerant [of ?row 1 0 parseInt "''abc''"]
  have f: "numField parseInt (Some []) = None" by blast
  have d': "weight_kg (buildSet ?row 1 0) = Some NaN" unfolding d using b by simp
  have e': "reps (buildSet ?row 1 0) = None" unfolding e using f by simp
  from a b c d' e' show ?thesis by (intro conjI)
qed

section \<open>A run of the workout tree builder\<close>

text \<open>The export of two days: three rows, two keys, two workouts, newest first.\<close>

theorem parseCSV_sorted_dedup_witness:
  "(\<exists>workouts.
      parseCSV sampleDateParse sampleClock csvTwoDays = Inr workouts
      \<and> map (\<lambda>w. (title w, start_time w, setCount w)) workouts =
          [(''Push'', 1735776000, 1), (''Legs'', 1735689600, 2)]
      \<and> sorted_wrt (\<lambda>a b. start_time b \<le> start_time a) workouts
      \<and> length workouts = card (workoutKey ` set (csvRows csvTwoDays))
      \<and> length (allSets workouts) = length (csvRows csvTwoDays))
   \<and> map workoutKey (csvRows csvTwoDays) =
        [''Legs_1 Jan 2025'', ''Push_2 Jan 2025'', ''Legs_1 Jan 2025'']
   \<and> map_of [(''A_B_C'', sampleWorkout 0 [])]
        (workoutKey [''title'' \<mapsto> ''A'', ''start_time'' \<mapsto> ''B_C'']) = Some (sampleWorkout 0 [])
   \<and> map fst (fst (processRow sampleDateParse sampleClock 1
        [''title'' \<mapsto> ''A'', ''start_time'' \<mapsto> ''B_C''] ([(''A_B_C'', sampleWorkout 0 [])], 0))) =
      [''A_B_C'']"
proof -
  let ?row = "[''title'' \<mapsto> ''A'', ''start_time'' \<mapsto> ''B_C'']"
  let ?wm = "[(''A_B_C'', sampleWorkout 0 [])]"
  have key: "workoutKey ?row = ''A_B_C''" by code_simp
  have m: "map_of ?wm (workoutKey ?row) = Some (sampleWorkout 0 [])"
    unfolding key by simp
  obtain ws where p: "parseCSV sampleDateParse sampleClock csvTwoDays = Inr ws"
    using parseCSV_total [OF two_days_nonblank] by blast
  note t = parseCSV_sorted_dedup [of sampleDateParse sampleClock csvTwoDays ws ?wm ?row
      "sampleWorkout 0 []" 1 0]
  note t1 = t [THEN conjunct1, THEN mp, OF p]
  note t2 = t [THEN conjunct2, THEN mp, OF m]
  have s: "sorted_wrt (\<lambda>a b. start_time b \<le> start_time a) ws"
    by (rule t1 [THEN conjunct1])
  have l: "length ws = card (workoutKey ` set (csvRows csvTwoDays))"
    by (rule t1 [THEN conjunct2, THEN conjunct2, THEN conjunct1])
  have a: "length (allSets ws) = length (csvRows csvTwoDays)"
    by (rule t1 [THEN conjunct2, THEN conjunct2, THEN conjunct2])
  have k: "map fst (fst (processRow sampleDateParse sampleClock 1 ?row (?wm, 0))) = [''A_B_C'']"
    unfolding t2 [THEN conjunct2] by simp
  have o: "map (\<lambda>w. (title w, start_time w, setCount w)) ws =
          [(''Push'', 1735776000, 1), (''Legs'', 1735689600, 2)]"
    using two_days_outline unfolding p by simp
  have e: "\<exists>workouts.
      parseCSV sampleDateParse sampleClock csvTwoDays = Inr workouts
      \<and> map (\<lambda>w. (title w, start_time w, setCount w)) workouts =
          [(''Push'', 1735776000, 1), (''Legs'', 1735689600, 2)]
      \<and> sorted_wrt (\<lambda>a b. start_time b \<le> start_time a) workouts
      \<and> length workouts = card (workoutKey ` set (csvRows csvTwoDays))
      \<and> length (allSets workouts) = length (csvRows csvTwoDays)"
    by (rule exI [of _ ws]) (intro conjI p o s l a)
  from e two_days_keys m k show ?thesis by (intro conjI)
qed

section \<open>Properties of the dedup key\<close>

lemma merged_nonblank: "trim csvMerged \<noteq> []"
  by code_simp

lemma merged_cells:
  "map (\<lambda>row. (row ''title'', row ''start_time'')) (csvRows csvMerged) =
     [(Some ''A_B'', Some ''C''), (Some ''A'', Some ''B_C'')]"
  by code_simp

lemma merged_keys: "map workoutKey (csvRows csvMerged) = [''A_B_C'', ''A_B_C'']"
  by code_simp

lemma merged_outline:
  "map_sum id (map (\<lambda>w. (title w, start_time w,
       map (\<lambda>e. (ex_title e, map index (sets e))) (exercises w))))
     (parseCSV sampleDateParse sampleClock csvMerged) =
   Inr [(''A_B'', 1767225601, [(''Squat'', [Fin 1, Fin 2])])]"
  by code_simp

lemma single_key_single_workout:
  assumes d: "distinct (map fst wm)" and s: "set (map fst wm) = {k}"
  shows "\<exists>w. wm = [(k, w)]"
proof -
  have "length (map fst wm) = card (set (map fst wm))"
    using d by (rule distinct_card [symmetric])
  also have "\<dots> = 1" unfolding s by simp
  finally have l: "length wm = 1" by simp
  then obtain p where p: "wm = [p]" by (cases wm) auto
  from s have "fst p = k" unfolding p by simp
  then have "p = (k, snd p)" by (cases p) simp
  with p show ?thesis by blast
qed

lemma merged_single:
  "\<exists>w. parseCSV dateParse clock csvMerged = Inr [w] \<and> setCount w = 2"
proof -
  obtain ws where p: "parseCSV dateParse clock csvMerged = Inr ws"
    using parseCSV_total [OF merged_nonblank] by blast
  from parseCSV_map [OF p] obtain wm where
    w: "ws = sort_key (\<lambda>w. - start_time w) (map snd wm)"
    and d: "distinct (map fst wm)"
    and k: "set (map fst wm) = workoutKey ` set (csvRows csvMerged)"
    and n: "sum_list (map (\<lambda>p. setCount (snd p)) wm) = length (csvRows csvMerged)"
    by blast
  have ks: "workoutKey ` set (csvRows csvMerged) = {''A_B_C''}"
    unfolding image_set merged_keys by simp
  have len: "length (csvRows csvMerged) = 2"
    using arg_cong [OF merged_keys, of length] by simp
  from single_key_single_workout [OF d k [unfolded ks]] obtain w0
    where wm: "wm = [(''A_B_C'', w0)]" by blast
  have "ws = [w0]" unfolding w wm by simp
  moreover have "setCount w0 = 2" using n unfolding wm len by simp
  ultimately show ?thesis using p by simp
qed

text \<open>
  C9. The dedup key is the template \<open>`${row.title}_${row.start_time}`\<close>: the two raw cells
  joined by one underscore. So a row with title \<open>a_b\<close> and start time \<open>c\<close> has the key of
  a row with title \<open>a\<close> and start time \<open>b_c\<close>. The file with the rows ("A_B", "C") and
  ("A", "B_C"), two distinct pairs, has the key "A_B_C" twice and parses, on every host,
  to a single workout that holds both sets; on the sample host this is the workout
  titled "A_B", whose exercise has the sets 1 and 2.
\<close>

theorem dedup_key_underscore_collision:
  "workoutKey row = tmpl (row ''title'') @ ''_'' @ tmpl (row ''start_time'')
   \<and> workoutKey (row1(''title'' \<mapsto> a @ ''_'' @ b, ''start_time'' \<mapsto> c)) =
       workoutKey (row2(''title'' \<mapsto> a, ''start_time'' \<mapsto> b @ ''_'' @ c))
   \<and> map (\<lambda>row. (row ''title'', row ''start_time'')) (csvRows csvMerged) =
       [(Some ''A_B'', Some ''C''), (Some ''A'', Some ''B_C'')]
   \<and> map workoutKey (csvRows csvMerged) = [''A_B_C'', ''A_B_C'']
   \<and> (\<exists>w. parseCSV dateParse clock csvMerged = Inr [w] \<and> setCount w = 2)
   \<and> map_sum id (map (\<lambda>w. (title w, start_time w,
          map (\<lambda>e. (ex_title e, map index (sets e))) (exercises w))))
        (parseCSV sampleDateParse sampleClock csvMerged) =
      Inr [(''A_B'', 1767225601, [(''Squat'', [Fin 1, Fin 2])])]"
proof -
  have k: "workoutKey row = tmpl (row ''title'') @ ''_'' @ tmpl (row ''start_time'')"
    by (rule workoutKey_def)
  have j: "workoutKey (row1(''title'' \<mapsto> a @ ''_'' @ b, ''start_time'' \<mapsto> c)) =
       workoutKey (row2(''title'' \<mapsto> a, ''start_time'' \<mapsto> b @ ''_'' @ c))"
    by (simp add: workoutKey_def tmpl_def)
  from k j merged_cells merged_keys merged_single [of dateParse clock] merged_outline
  show ?thesis by (intro conjI)
qed

end
